theory Spec2Isabelle
  imports Complex_Main "HOL-Library.Multiset" "HOL-Library.Sublist"
begin

section \<open>The RE10k dataset iterator (src/dataset/dataset\_re10k.py)\<close>

text \<open>
  Tensor arithmetic is modelled over the real numbers: float32 rounding, overflow and
  signed zeros are not represented. The one place where real arithmetic has no answer
  and float32 has one is a division by zero, which yields an infinity or a NaN; such a
  value is written \<open>None\<close> in the type \<open>fl\<close> below, so that no result of the model
  rests on HOL's convention \<open>x / 0 = 0\<close>.
\<close>

subsection \<open>Errors and loop steps\<close>

datatype error =
    IndexError        \<comment> \<open>an index outside a list or tensor\<close>
  | ShapeError        \<comment> \<open>reshape, rearrange, unpacking or broadcasting of a wrong shape\<close>
  | LinAlgError       \<comment> \<open>\<open>inverse\<close> of a singular matrix\<close>
  | RuntimeError      \<comment> \<open>\<open>torch.cat\<close>, \<open>torch.stack\<close> or \<open>max\<close> over nothing\<close>
  | AssertionError    \<comment> \<open>the \<open>assert len(item) == 1\<close> of the overfit branch\<close>
  | DecodeError       \<comment> \<open>an image the decoder refuses\<close>
  | NotModelled       \<comment> \<open>a NaN reaching \<open>inverse\<close>, or \<open>torch.cross\<close> on a batch of three
                          vectors: the model does not follow the computation further\<close>

text \<open>What one pass of a scene through the loop body does: it raises (the exception is
  not caught, the iteration ends), it executes \<open>continue\<close>, or it yields a value.\<close>

datatype 'a step = Raise error | Continue | Yield 'a

fun run :: "'a step list \<Rightarrow> 'a list \<times> error option" where
  "run [] = ([], None)"
| "run (Raise e # ss) = ([], Some e)"
| "run (Continue # ss) = run ss"
| "run (Yield x # ss) = (case run ss of (ys, r) \<Rightarrow> (x # ys, r))"

definition gather :: "'a list \<Rightarrow> nat list \<Rightarrow> error + 'a list" where
  \<comment> \<open>\<open>[xs[index.item()] for index in indices]\<close> and \<open>xs[indices]\<close>\<close>
  "gather xs indices =
     (if list_all (\<lambda>i. i < length xs) indices then Inr (map (\<lambda>i. xs ! i) indices)
      else Inl IndexError)"

definition gather_cat :: "'a list \<Rightarrow> nat list \<Rightarrow> error + 'a list" where
  \<comment> \<open>the gathered list handed to \<open>torch.cat\<close>, which refuses an empty list\<close>
  "gather_cat xs indices =
     (case gather xs indices of
        Inl e \<Rightarrow> Inl e
      | Inr ys \<Rightarrow> if ys = [] then Inl RuntimeError else Inr ys)"

subsection \<open>Configuration and dataset object\<close>

text \<open>The configuration dataclass and the dataset object as \<open>__init__\<close> leaves it:
  \<open>chunks\<close> is the list of chunk paths, \<open>near\<close> and \<open>far\<close> are the bounds that
  \<open>get_bound\<close> reads.\<close>

datatype stage = Train | Val | Test

record cfg =
  baseline_epsilon :: real
  max_fov :: real
  make_baseline_1 :: bool
  augment :: bool
  test_len :: int
  test_chunk_interval :: int
  test_times_per_scene :: int
  skip_bad_shape :: bool
  cfg_near :: real
  cfg_far :: real
  baseline_scale_bounds :: bool
  shuffle_val :: bool
  overfit_to_scene :: "string option"

record 'c dataset =
  cfg :: cfg
  stage :: stage
  chunks :: "'c list"
  near :: real
  far :: real

record worker_info =
  num_workers :: nat
  worker_id :: nat

subsection \<open>Shuffling and the worker filter (\<open>__iter__\<close>, lines 104--118)\<close>

definition shuffle :: "nat list \<Rightarrow> 'a list \<Rightarrow> 'a list" where
  \<comment> \<open>\<open>indices\<close> is the value of \<open>torch.randperm(len(lst))\<close>\<close>
  "shuffle indices lst = map (\<lambda>x. lst ! x) indices"

definition stage_is_shuffled :: "cfg \<Rightarrow> stage \<Rightarrow> bool" where
  \<comment> \<open>\<open>self.stage in (("train", "val") if self.cfg.shuffle_val else ("train"))\<close>\<close>
  "stage_is_shuffled c st =
     (if shuffle_val c then st = Train \<or> st = Val else st = Train)"

definition worker_entries :: "nat \<Rightarrow> nat \<Rightarrow> 'c list \<Rightarrow> (nat \<times> 'c) list" where
  \<comment> \<open>the pairs of \<open>enumerate(self.chunks)\<close> that pass the test of line 117;
      \<open>num_workers\<close> is positive in every \<open>worker_info\<close> torch hands out\<close>
  "worker_entries nw i cs =
     filter (\<lambda>(chunk_index, chunk). chunk_index mod nw = i) (enumerate 0 cs)"

definition worker_chunks :: "nat \<Rightarrow> nat \<Rightarrow> 'c list \<Rightarrow> 'c list" where
  "worker_chunks nw i cs = map snd (worker_entries nw i cs)"

definition iter_prologue ::
  "nat list \<Rightarrow> worker_info option \<Rightarrow> 'c dataset \<Rightarrow> 'c dataset" where
  \<comment> \<open>both assignments go to \<open>self.chunks\<close>; the loop then runs over \<open>chunks\<close> of the result\<close>
  "iter_prologue indices info self =
     (let self1 = (if stage_is_shuffled (cfg self) (stage self)
                   then self\<lparr>chunks := shuffle indices (chunks self)\<rparr> else self)
      in case info of
           None \<Rightarrow> self1
         | Some w \<Rightarrow>
             if stage self1 = Test
             then self1\<lparr>chunks := worker_chunks (num_workers w) (worker_id w) (chunks self1)\<rparr>
             else self1)"

subsection \<open>Vectors: \<open>normalize\<close> and \<open>get_forward_up_right_tensor\<close> (lines 91--101)\<close>

type_synonym vec3 = "real \<times> real \<times> real"

text \<open>A vector of the last tensor dimension. \<open>None\<close> is the vector whose three components
  are NaN: it arises from \<open>0 / 0\<close> when a zero vector is normalised, and every product and
  difference with a NaN is a NaN again.\<close>

definition normalize_v :: "vec3 option \<Rightarrow> vec3 option" where
  \<comment> \<open>\<open>x / torch.sqrt((x * x).sum(dim=-1)).unsqueeze(dim=-1)\<close>\<close>
  "normalize_v x =
     (case x of
        None \<Rightarrow> None
      | Some (a, b, c) \<Rightarrow>
          (let n = sqrt (a * a + b * b + c * c)
           in if n = 0 then None else Some (a / n, b / n, c / n)))"

definition cross :: "vec3 option \<Rightarrow> vec3 option \<Rightarrow> vec3 option" where
  \<comment> \<open>\<open>torch.cross\<close> along the dimension of size 3\<close>
  "cross u v =
     (case (u, v) of
        (Some (a1, a2, a3), Some (b1, b2, b3)) \<Rightarrow>
          Some (a2 * b3 - a3 * b2, a3 * b1 - a1 * b3, a1 * b2 - a2 * b1)
      | _ \<Rightarrow> None)"

definition get_forward_up_right_tensor ::
  "vec3 \<Rightarrow> vec3 option \<times> vec3 option \<times> vec3 option" where
  "get_forward_up_right_tensor to_light0 =
     (let to_light = normalize_v (Some to_light0);
          up = Some (0, 0, 1);
          right = normalize_v (cross to_light up);
          up = normalize_v (cross to_light right)
      in (to_light, up, right))"




subsection \<open>Matrices and \<open>inverse\<close>\<close>

type_synonym mat = "real list list"

text \<open>A float that may be an infinity or a NaN (\<open>None\<close>), and matrices of such.\<close>

type_synonym fl = "real option"
type_synonym fmat = "fl list list"

definition fdiv :: "real \<Rightarrow> real \<Rightarrow> fl" where
  "fdiv x y = (if y = 0 then None else Some (x / y))"

definition chop :: "nat \<Rightarrow> 'a list \<Rightarrow> 'a list list" where
  \<comment> \<open>a row-major reshape of a flat list into rows of \<open>n\<close>\<close>
  "chop n xs = map (\<lambda>k. take n (drop (k * n) xs)) [0..<length xs div n]"

definition del :: "nat \<Rightarrow> 'a list \<Rightarrow> 'a list" where
  "del i xs = take i xs @ drop (Suc i) xs"

definition minor_m :: "mat \<Rightarrow> nat \<Rightarrow> nat \<Rightarrow> mat" where
  "minor_m m i j = map (del j) (del i m)"

fun det_n :: "nat \<Rightarrow> mat \<Rightarrow> real" where
  "det_n 0 m = 1"
| "det_n (Suc n) m =
     (\<Sum>j\<leftarrow>[0..<Suc n]. (- 1) ^ j * (m ! 0 ! j) * det_n n (minor_m m 0 j))"

definition det :: "mat \<Rightarrow> real" where
  "det m = det_n (length m) m"

definition adjugate :: "mat \<Rightarrow> mat" where
  "adjugate m =
     map (\<lambda>i. map (\<lambda>j. (- 1) ^ (i + j) * det (minor_m m j i)) [0..<length m]) [0..<length m]"

definition inverse_m :: "mat \<Rightarrow> error + mat" where
  \<comment> \<open>\<open>Tensor.inverse\<close> of one square matrix: it raises on a singular matrix\<close>
  "inverse_m m =
     (if det m = 0 then Inl LinAlgError
      else Inr (map (map (\<lambda>x. x / det m)) (adjugate m)))"

definition matmul :: "mat \<Rightarrow> mat \<Rightarrow> mat" where
  "matmul a b =
     map (\<lambda>row. map (\<lambda>j. (\<Sum>k\<leftarrow>[0..<length b]. row ! k * (b ! k ! j))) [0..<length (hd b)]) a"

definition eye :: "nat \<Rightarrow> mat" where
  "eye n = map (\<lambda>i. map (\<lambda>j. if i = j then 1 else 0) [0..<n]) [0..<n]"

fun collect :: "(error + 'a) list \<Rightarrow> error + 'a list" where
  \<comment> \<open>a batched operation raises as soon as one element of the batch does\<close>
  "collect [] = Inr []"
| "collect (Inl e # rs) = Inl e"
| "collect (Inr x # rs) = (case collect rs of Inl e \<Rightarrow> Inl e | Inr xs \<Rightarrow> Inr (x # xs))"

subsection \<open>\<open>convert_poses\<close> (lines 360--387)\<close>

definition intrinsics_of :: "real list \<Rightarrow> mat" where
  \<comment> \<open>\<open>fx, fy, cx, cy = poses[:, :4].T\<close> written into \<open>eye(3)\<close>\<close>
  "intrinsics_of p = [[p ! 0, 0, p ! 2], [0, p ! 1, p ! 3], [0, 0, 1]]"

definition w2c_of :: "real list \<Rightarrow> mat" where
  \<comment> \<open>\<open>w2c[:, :3] = rearrange(poses[:, 6:], "b (h w) -> b h w", h=3, w=4)\<close> in \<open>eye(4)\<close>\<close>
  "w2c_of p = chop 4 (drop 6 p) @ [[0, 0, 0, 1]]"

definition convert_poses :: "real list list \<Rightarrow> error + (mat list \<times> mat list)" where
  \<comment> \<open>an empty batch fails at \<open>print(w2c[0])\<close>; a row that is not of length 18 fails at
      the unpacking or at \<open>rearrange\<close>\<close>
  "convert_poses poses =
     (if list_ex (\<lambda>p. length p \<noteq> 18) poses then Inl ShapeError
      else if poses = [] then Inl IndexError
      else case collect (map (\<lambda>p. inverse_m (w2c_of p)) poses) of
             Inl e \<Rightarrow> Inl e
           | Inr extrinsics \<Rightarrow> Inr (extrinsics, map intrinsics_of poses))"

subsection \<open>Loading a \<open>.zst\<close> chunk (lines 124--157)\<close>

text \<open>The arrays of the pickled dictionary, each flattened in row-major order.\<close>

record zst_raw =
  radiance :: "real list"
  depth :: "real list"
  position :: "real list"
  direction :: "real list"

text \<open>A tensor of shape (frames, 256, 256, channels): frame, row, column, channel.\<close>

type_synonym 'a tiles = "'a list list list list"

definition reshape_tiles :: "nat \<Rightarrow> real list \<Rightarrow> error + real tiles" where
  \<comment> \<open>\<open>.reshape(-1, 256, 256, c)\<close>: it raises unless the size is a multiple of
      \<open>256 * 256 * c\<close>\<close>
  "reshape_tiles c xs =
     (if length xs mod (256 * 256 * c) \<noteq> 0 then Inl ShapeError
      else Inr (map (\<lambda>frame. map (chop c) (chop (256 * c) frame)) (chop (256 * 256 * c) xs)))"

definition pixels :: "'a tiles \<Rightarrow> 'a list list" where
  \<comment> \<open>\<open>.reshape(-1, 3)\<close> of the image tensor: all pixels of all frames\<close>
  "pixels frames = concat (concat frames)"

definition channel_max :: "nat \<Rightarrow> real list list \<Rightarrow> real" where
  \<comment> \<open>\<open>.max(dim=0)[0]\<close> at channel \<open>k\<close>, for a non-empty list of pixels\<close>
  "channel_max k ps = fold max (map (\<lambda>p. p ! k) (tl ps)) (hd ps ! k)"

definition normalize_images :: "real tiles \<Rightarrow> error + fl tiles" where
  \<comment> \<open>line 132; the maximum over no pixel at all raises\<close>
  "normalize_images images =
     (if pixels images = [] then Inl RuntimeError
      else Inr (map (map (map (\<lambda>p. map (\<lambda>(k, x). fdiv x (channel_max k (pixels images)))
                                       (enumerate 0 p)))) images))"

definition channel_max_fl :: "nat \<Rightarrow> fl list list \<Rightarrow> fl" where
  \<comment> \<open>the maximum of channel \<open>k\<close> of a rescaled image tensor. A channel of the result
      of \<open>normalize_images\<close> holds a non-finite value only when its divisor is zero, and
      then the entry at the former maximum is \<open>0 / 0\<close>, a NaN, which \<open>max\<close> returns.\<close>
  "channel_max_fl k ps =
     (if list_ex (\<lambda>p. p ! k = None) ps then None
      else Some (channel_max k (map (map the) ps)))"

definition permute_chw :: "'a list list list \<Rightarrow> 'a list list list" where
  \<comment> \<open>\<open>.permute(0, 3, 1, 2)\<close> on one frame: (row, column, channel) to (channel, row, column)\<close>
  "permute_chw frame =
     map (\<lambda>k. map (map (\<lambda>p. p ! k)) frame) [0..<length (hd (hd frame))]"

definition vec_of :: "real list \<Rightarrow> vec3" where
  "vec_of p = (p ! 0, p ! 1, p ! 2)"

definition principal :: "real tiles \<Rightarrow> vec3 list" where
  \<comment> \<open>\<open>[..., 127:128, 127:128, :]\<close>: the sample at row 127, column 127 of every frame\<close>
  "principal frames = map (\<lambda>frame. vec_of (frame ! 127 ! 127)) frames"

definition comps :: "vec3 option \<Rightarrow> fl list" where
  "comps v = (case v of None \<Rightarrow> [None, None, None]
                      | Some (x, y, z) \<Rightarrow> [Some x, Some y, Some z])"

definition zst_c2w :: "vec3 \<Rightarrow> fmat" where
  \<comment> \<open>lines 135--147 for one frame, from its direction sample: the matrix before
      \<open>extrinsics.inverse()\<close>\<close>
  "zst_c2w d =
     (case d of (dx, dy, dz) \<Rightarrow>
        let camera_position = (dx * 0.8, dy * 0.8, dz * 0.8);
            (forward, up, right) = get_forward_up_right_tensor (- dx, - dy, - dz);
            r = comps right; u = comps up; f = comps forward;
            t = (case camera_position of (px, py, pz) \<Rightarrow> [Some (- px), Some (- py), Some (- pz)])
        in [[r ! 0, u ! 0, f ! 0, t ! 0],
            [r ! 1, u ! 1, f ! 1, t ! 1],
            [r ! 2, u ! 2, f ! 2, t ! 2],
            [Some 0, Some 0, Some 0, Some 1]])"

definition column :: "nat \<Rightarrow> 'a list list \<Rightarrow> 'a list" where
  \<comment> \<open>\<open>m[:3, j]\<close>\<close>
  "column j m = map (\<lambda>row. row ! j) (take 3 m)"

definition finite_m :: "fmat \<Rightarrow> error + mat" where
  "finite_m m =
     (if list_all (list_all (\<lambda>x. x \<noteq> None)) m then Inr (map (map the) m)
      else Inl NotModelled)"

definition zst_extrinsics :: "vec3 \<Rightarrow> error + mat" where
  "zst_extrinsics d =
     (case finite_m (zst_c2w d) of Inl e \<Rightarrow> Inl e | Inr m \<Rightarrow> inverse_m m)"

definition zst_intrinsics :: mat where
  \<comment> \<open>lines 149--152 written into \<open>eye(3)\<close>\<close>
  "zst_intrinsics = [[0.5, 0, 0.5], [0, 0.5, 0.5], [0, 0, 1]]"

definition broadcast :: "nat \<Rightarrow> 'a list \<Rightarrow> error + 'a list" where
  \<comment> \<open>assigning a batch of \<open>length xs\<close> rows to a slice of \<open>b\<close> rows\<close>
  "broadcast b xs =
     (if length xs = b then Inr xs
      else if length xs = 1 then Inr (replicate b (hd xs))
      else Inl ShapeError)"

text \<open>\<open>new_chunk\<close>, the dictionary built from the chunk, which line 160 names \<open>example\<close>.\<close>

record ('i, 'd, 'p) new_chunk =
  images :: "'i list"
  depths :: "'d list"
  positions :: "'p list"
  key :: string
  origin :: "vec3 list"

fun bind :: "error + 'a \<Rightarrow> ('a \<Rightarrow> error + 'b) \<Rightarrow> error + 'b" where
  "bind (Inl e) f = Inl e"
| "bind (Inr x) f = f x"

definition load_zst ::
  "string \<Rightarrow> zst_raw \<Rightarrow>
     error + ((fl list list list, real list list list, real list list list) new_chunk
              \<times> mat list \<times> mat list)" where
  \<comment> \<open>\<open>torch.cross\<close> is called without \<open>dim\<close> and works along the first dimension of
      size 3: that is the last one, as modelled, unless the batch itself has size 3\<close>
  "load_zst k chunk =
     bind (reshape_tiles 3 (radiance chunk)) (\<lambda>images0.
     bind (reshape_tiles 1 (depth chunk)) (\<lambda>depths0.
     bind (reshape_tiles 3 (position chunk)) (\<lambda>positions0.
     bind (normalize_images images0) (\<lambda>images1.
     bind (reshape_tiles 3 (direction chunk)) (\<lambda>directions.
     if length directions = 3 then Inl NotModelled else
     bind (broadcast (length images1) (principal directions)) (\<lambda>samples.
     bind (collect (map zst_extrinsics samples)) (\<lambda>extrinsics.
       Inr (\<lparr>images = map permute_chw images1,
             depths = map permute_chw depths0,
             positions = positions0,
             key = k,
             origin = map (\<lambda>(dx, dy, dz). (dx * 0.8, dy * 0.8, dz * 0.8)) (principal directions)\<rparr>,
            extrinsics,
            replicate (length images1) zst_intrinsics))))))))"

subsection \<open>The body of the scene loop (lines 167--258 and 275--358)\<close>

text \<open>The view sampler and \<open>get_fov\<close> are not part of this file: they are parameters.
  The sampler returns the context and target indices, or \<open>None\<close> when it raises
  \<open>ValueError\<close>; \<open>get_fov_deg\<close> is \<open>get_fov(intrinsics).rad2deg()\<close>, one row of
  angles for every frame.\<close>

type_synonym sampler = "string \<Rightarrow> mat list \<Rightarrow> mat list \<Rightarrow> (nat list \<times> nat list) option"
type_synonym fov = "mat list \<Rightarrow> error + real list list"

record ('i, 'd, 'p) views =
  extrinsics :: "fmat list"
  intrinsics :: "mat list"
  image_v :: "'i list"
  near_v :: "fl list"
  far_v :: "fl list"
  index :: "nat list"
  depths_v :: "'d list option"
  positions_v :: "'p list option"

record ('i, 'd, 'p) example =
  context_views :: "('i, 'd, 'p) views"
  target_views :: "('i, 'd, 'p) views"
  scene :: string

fun attempt :: "error + 'a \<Rightarrow> ('a \<Rightarrow> 'b step) \<Rightarrow> 'b step" where
  "attempt (Inl e) f = Raise e"
| "attempt (Inr x) f = f x"

definition too_wide :: "real \<Rightarrow> real list list \<Rightarrow> bool" where
  \<comment> \<open>\<open>(get_fov(intrinsics).rad2deg() > self.cfg.max_fov).any()\<close>\<close>
  "too_wide cap fovs = list_ex (list_ex (\<lambda>v. v > cap)) fovs"

definition norm_l :: "real list \<Rightarrow> real" where
  \<comment> \<open>\<open>.norm()\<close>\<close>
  "norm_l v = sqrt (sum_list (map (\<lambda>x. x * x) v))"

definition is_4x4 :: "mat \<Rightarrow> bool" where
  "is_4x4 m = (length m = 4 \<and> list_all (\<lambda>row. length row = 4) m)"

definition div_translation :: "real \<Rightarrow> mat \<Rightarrow> fmat" where
  \<comment> \<open>\<open>m[:3, 3] /= scale\<close>; all other entries stay\<close>
  "div_translation sc m =
     map (\<lambda>(i, row). map (\<lambda>(j, x). if i < 3 \<and> j = 3 then fdiv x sc else Some x)
                           (enumerate 0 row))
         (enumerate 0 m)"

definition resize_world :: "cfg \<Rightarrow> mat list \<Rightarrow> nat list \<Rightarrow> (real \<times> fmat list) step" where
  \<comment> \<open>lines 217--230 and, word for word the same, lines 322--334: the scale and the
      extrinsics of all views after it. The slice \<open>[:, :3, 3]\<close> needs 4x4 matrices,
      which both paths build.\<close>
  "resize_world c extrinsics0 context_indices =
     (if \<not> list_all is_4x4 extrinsics0 then Raise ShapeError else
      attempt (gather extrinsics0 context_indices) (\<lambda>context_extrinsics.
        if length context_extrinsics = 2 \<and> make_baseline_1 c then
          (let a = column 3 (context_extrinsics ! 0);
               b = column 3 (context_extrinsics ! 1);
               scale = norm_l (map2 (-) a b)
           in if scale < baseline_epsilon c then Continue
              else Yield (scale, map (div_translation scale) extrinsics0))
        else Yield (1, map (map (map Some)) extrinsics0)))"

definition get_bound :: "real \<Rightarrow> nat \<Rightarrow> real list" where
  \<comment> \<open>\<open>repeat(value, "-> v", v=num_views)\<close>\<close>
  "get_bound v num_views = replicate num_views v"

definition views_of ::
  "'c dataset \<Rightarrow> real \<Rightarrow> fmat list \<Rightarrow> mat list \<Rightarrow> nat list \<Rightarrow> 'i list \<Rightarrow>
     'd list option \<Rightarrow> 'p list option \<Rightarrow> ('i, 'd, 'p) views" where
  \<comment> \<open>the dictionary of one group of views, for indices that are in range\<close>
  "views_of self nf_scale e k indices imgs ds ps =
     \<lparr>extrinsics = map (\<lambda>i. e ! i) indices, intrinsics = map (\<lambda>i. k ! i) indices,
      image_v = imgs,
      near_v = replicate (length indices) (fdiv (near self) nf_scale),
      far_v = replicate (length indices) (fdiv (far self) nf_scale),
      index = indices, depths_v = ds, positions_v = ps\<rparr>"

definition make_views ::
  "'c dataset \<Rightarrow> real \<Rightarrow> fmat list \<Rightarrow> mat list \<Rightarrow> nat list \<Rightarrow> 'i list \<Rightarrow>
     'd list option \<Rightarrow> 'p list option \<Rightarrow> error + ('i, 'd, 'p) views" where
  \<comment> \<open>one of the two inner dictionaries of lines 232--254 and 337--355\<close>
  "make_views self nf_scale extrinsics1 intrinsics1 indices imgs ds ps =
     bind (gather extrinsics1 indices) (\<lambda>e.
     bind (gather intrinsics1 indices) (\<lambda>k.
       Inr \<lparr>extrinsics = e, intrinsics = k, image_v = imgs,
            near_v = map (\<lambda>v. fdiv v nf_scale) (get_bound (near self) (length indices)),
            far_v = map (\<lambda>v. fdiv v nf_scale) (get_bound (far self) (length indices)),
            index = indices, depths_v = ds, positions_v = ps\<rparr>))"

definition assemble ::
  "'c dataset \<Rightarrow> string \<Rightarrow> mat list \<Rightarrow> mat list \<Rightarrow> nat list \<Rightarrow> nat list \<Rightarrow>
     'i list \<Rightarrow> 'i list \<Rightarrow> 'd list option \<Rightarrow> 'd list option \<Rightarrow>
     'p list option \<Rightarrow> 'p list option \<Rightarrow> (('i, 'd, 'p) example \<times> real) step" where
  \<comment> \<open>lines 217--254 and 322--355: the rescaling and the dictionary handed to the shims,
      paired with the local variable \<open>scale\<close>\<close>
  "assemble self sc extrinsics0 intrinsics0 context_indices target_indices
       context_images target_images context_depths target_depths
       context_positions target_positions =
     (case resize_world (cfg self) extrinsics0 context_indices of
        Raise e \<Rightarrow> Raise e
      | Continue \<Rightarrow> Continue
      | Yield (scale, extrinsics1) \<Rightarrow>
          (let nf_scale = (if baseline_scale_bounds (cfg self) then scale else 1)
           in attempt (make_views self nf_scale extrinsics1 intrinsics0 context_indices
                     context_images context_depths context_positions) (\<lambda>cv.
              attempt (make_views self nf_scale extrinsics1 intrinsics0 target_indices
                     target_images target_depths target_positions) (\<lambda>tv.
                Yield (\<lparr>context_views = cv, target_views = tv, scene = sc\<rparr>, scale)))))"

definition process_zst_scene ::
  "'c dataset \<Rightarrow> sampler \<Rightarrow> fov \<Rightarrow> ('i, 'd, 'p) new_chunk \<Rightarrow> mat list \<Rightarrow> mat list \<Rightarrow>
     (('i, 'd, 'p) example \<times> real) step" where
  "process_zst_scene self sample get_fov_deg example0 extrinsics0 intrinsics0 =
     (let scene = key example0 in
      case sample scene extrinsics0 intrinsics0 of
        None \<Rightarrow> Continue
      | Some (sampled_context, target_indices) \<Rightarrow>
          (let context_indices = [9, 15, 34, 45] in
           attempt (get_fov_deg intrinsics0) (\<lambda>fovs.
           if too_wide (max_fov (cfg self)) fovs then Continue else
           attempt (gather_cat (images example0) context_indices) (\<lambda>context_images.
           attempt (gather_cat (images example0) target_indices) (\<lambda>target_images.
           attempt (gather_cat (depths example0) context_indices) (\<lambda>context_depths.
           attempt (gather_cat (depths example0) target_indices) (\<lambda>target_depths.
           attempt (gather_cat (positions example0) context_indices) (\<lambda>context_positions.
           attempt (gather_cat (positions example0) target_indices) (\<lambda>target_positions.
             assemble self scene extrinsics0 intrinsics0 context_indices target_indices
               context_images target_images (Some context_depths) (Some target_depths)
               (Some context_positions) (Some target_positions))))))))))"

text \<open>A record of a \<open>.torch\<close> chunk: the scene key, the pose vectors of its frames and
  the encoded images.\<close>

record 'r torch_example =
  t_key :: string
  cameras :: "real list list"
  t_images :: "'r list"

definition convert_images ::
  "('r \<Rightarrow> 'i option) \<Rightarrow> ('i \<Rightarrow> nat list) \<Rightarrow> 'r list \<Rightarrow> error + ('i list \<times> nat list)" where
  \<comment> \<open>lines 389--397. \<open>decode\<close> is \<open>Image.open\<close> followed by \<open>to_tensor\<close>, \<open>shape_of\<close>
      the shape of the tensor it gives; \<open>torch.stack\<close> wants a non-empty list of tensors
      of one shape. The second component is \<open>.shape[1:]\<close> of the stacked tensor.\<close>
  "convert_images decode shape_of raws =
     (if list_ex (\<lambda>r. decode r = None) raws then Inl DecodeError
      else let torch_images = map (\<lambda>r. the (decode r)) raws in
        if torch_images = [] then Inl RuntimeError
        else if list_ex (\<lambda>i. shape_of i \<noteq> shape_of (hd torch_images)) torch_images
        then Inl RuntimeError
        else Inr (torch_images, shape_of (hd torch_images)))"

function decimal :: "nat \<Rightarrow> string" where
  "decimal n =
     (if n < 10 then [char_of (48 + n)]
      else decimal (n div 10) @ [char_of (48 + n mod 10)])"
  by pat_completeness auto
termination
  by (relation "measure (\<lambda>n. n)") auto

definition format_02d :: "nat \<Rightarrow> string" where
  \<comment> \<open>the format \<open>:02d\<close> of a number that is not negative\<close>
  "format_02d n = (if n < 10 then CHR ''0'' # decimal n else decimal n)"

definition scene_name :: "int \<Rightarrow> string \<Rightarrow> nat \<Rightarrow> string" where
  \<comment> \<open>lines 277--280\<close>
  "scene_name times_per_scene k run_idx =
     (if times_per_scene > 1
      then k @ ''_'' @ format_02d (nat (int run_idx mod times_per_scene))
      else k)"

definition process_torch_scene ::
  "'c dataset \<Rightarrow> sampler \<Rightarrow> fov \<Rightarrow> ('r \<Rightarrow> 'i option) \<Rightarrow> ('i \<Rightarrow> nat list) \<Rightarrow>
     'r torch_example \<Rightarrow> nat \<Rightarrow> (('i, unit, unit) example \<times> real) step" where
  "process_torch_scene self sample get_fov_deg decode shape_of example0 run_idx =
     (let times_per_scene = test_times_per_scene (cfg self) in
      attempt (convert_poses (cameras example0)) (\<lambda>(extrinsics0, intrinsics0).
      let scene = scene_name times_per_scene (t_key example0) run_idx in
      case sample scene extrinsics0 intrinsics0 of
        None \<Rightarrow> Continue
      | Some (sampled_context, target_indices) \<Rightarrow>
          (let context_indices = [0, 1] in
           attempt (get_fov_deg intrinsics0) (\<lambda>fovs.
           if too_wide (max_fov (cfg self)) fovs then Continue else
           attempt (gather (t_images example0) context_indices) (\<lambda>context_raw.
           attempt (convert_images decode shape_of context_raw) (\<lambda>(context_images, context_shape).
           attempt (gather (t_images example0) target_indices) (\<lambda>target_raw.
           attempt (convert_images decode shape_of target_raw) (\<lambda>(target_images, target_shape).
           let context_image_invalid = (context_shape \<noteq> [3, 360, 640]);
               target_image_invalid = (target_shape \<noteq> [3, 360, 640]) in
           if skip_bad_shape (cfg self) \<and> (context_image_invalid \<or> target_image_invalid)
           then Continue
           else assemble self scene extrinsics0 intrinsics0 context_indices target_indices
                  context_images target_images None None None None))))))))"

definition torch_chunk_steps ::
  "'c dataset \<Rightarrow> sampler \<Rightarrow> fov \<Rightarrow> ('r \<Rightarrow> 'i option) \<Rightarrow> ('i \<Rightarrow> nat list) \<Rightarrow> nat list \<Rightarrow>
     'r torch_example list \<Rightarrow> (('i, unit, unit) example \<times> real) step list" where
  \<comment> \<open>lines 262--358 for one loaded chunk; \<open>indices\<close> is the permutation drawn by the
      shuffle of line 268\<close>
  "torch_chunk_steps self sample get_fov_deg decode shape_of indices chunk0 =
     (case (case overfit_to_scene (cfg self) of
              None \<Rightarrow> Inr chunk0
            | Some k \<Rightarrow>
                (let item = filter (\<lambda>x. t_key x = k) chunk0
                 in if length item = 1 then Inr (concat (replicate (length chunk0) item))
                    else Inl AssertionError)) of
        Inl e \<Rightarrow> [Raise e]
      | Inr chunk1 \<Rightarrow>
          (let chunk = (if stage_is_shuffled (cfg self) (stage self)
                        then shuffle indices chunk1 else chunk1);
               times_per_scene = test_times_per_scene (cfg self)
           in map (\<lambda>run_idx. process_torch_scene self sample get_fov_deg decode shape_of
                                (chunk ! nat (int run_idx div times_per_scene)) run_idx)
                  [0..<nat (times_per_scene * int (length chunk))]))"

subsection \<open>The whole iteration\<close>

text \<open>What a chunk path holds. A path whose last dot-separated part is \<open>zst\<close> is read as
  a compressed dictionary, any other path with \<open>torch.load\<close>; the key of a \<open>.zst\<close>
  chunk is the part of its path before the first dot.\<close>

datatype 'r chunk_file = ZstFile zst_raw | TorchFile "'r torch_example list"

fun split_dot :: "string \<Rightarrow> string list" where
  \<comment> \<open>\<open>str(chunk_path).split(".")\<close>\<close>
  "split_dot [] = [[]]"
| "split_dot (c # cs) =
     (if c = CHR ''.'' then [] # split_dot cs
      else (case split_dot cs of p # ps \<Rightarrow> (c # p) # ps | [] \<Rightarrow> [[c]]))"

definition zst_steps ::
  "string dataset \<Rightarrow> sampler \<Rightarrow> fov \<Rightarrow> string \<Rightarrow> zst_raw \<Rightarrow>
     ((fl list list list, real list list list, real list list list) example \<times> real) step list" where
  "zst_steps self sample get_fov_deg chunk_path raw =
     [attempt (load_zst (hd (split_dot chunk_path)) raw) (\<lambda>(example0, extrinsics0, intrinsics0).
        process_zst_scene self sample get_fov_deg example0 extrinsics0 intrinsics0)]"

definition emit :: "'c dataset \<Rightarrow> ('e \<Rightarrow> 'e) \<Rightarrow> ('e \<Rightarrow> 'e) \<Rightarrow> 'e \<times> real \<Rightarrow> 'e" where
  \<comment> \<open>lines 255--257 and 356--358; the two shims are parameters\<close>
  "emit self apply_augmentation_shim apply_crop_shim r =
     apply_crop_shim (if stage self = Train \<and> augment (cfg self)
                      then apply_augmentation_shim (fst r) else fst r)"

fun map_step :: "('a \<Rightarrow> 'b) \<Rightarrow> 'a step \<Rightarrow> 'b step" where
  "map_step f (Raise e) = Raise e"
| "map_step f Continue = Continue"
| "map_step f (Yield x) = Yield (f x)"

type_synonym zst_example = "(fl list list list, real list list list, real list list list) example"

definition chunk_steps ::
  "string dataset \<Rightarrow> sampler \<Rightarrow> fov \<Rightarrow> ('r \<Rightarrow> 'i option) \<Rightarrow> ('i \<Rightarrow> nat list) \<Rightarrow>
     (string \<Rightarrow> 'r chunk_file) \<Rightarrow> (string \<Rightarrow> nat list) \<Rightarrow> string \<Rightarrow>
     ((zst_example + ('i, unit, unit) example) \<times> real) step list" where
  \<comment> \<open>one round of \<open>for chunk_path in self.chunks\<close>. \<open>files\<close> is the content of the
      paths, \<open>perm\<close> the permutation drawn for the records of a chunk; a file of the
      other format makes its reader raise.\<close>
  "chunk_steps self sample get_fov_deg decode shape_of files perm chunk_path =
     (if last (split_dot chunk_path) = ''zst''
      then (case files chunk_path of
              ZstFile raw \<Rightarrow>
                map (map_step (\<lambda>(e, sc). (Inl e, sc)))
                    (zst_steps self sample get_fov_deg chunk_path raw)
            | TorchFile chunk \<Rightarrow> [Raise DecodeError])
      else (case files chunk_path of
              TorchFile chunk \<Rightarrow>
                map (map_step (\<lambda>(e, sc). (Inr e, sc)))
                    (torch_chunk_steps self sample get_fov_deg decode shape_of
                       (perm chunk_path) chunk)
            | ZstFile raw \<Rightarrow> [Raise DecodeError]))"

definition iter ::
  "nat list \<Rightarrow> worker_info option \<Rightarrow> sampler \<Rightarrow> fov \<Rightarrow> ('r \<Rightarrow> 'i option) \<Rightarrow>
     ('i \<Rightarrow> nat list) \<Rightarrow> (string \<Rightarrow> 'r chunk_file) \<Rightarrow> (string \<Rightarrow> nat list) \<Rightarrow>
     ((zst_example + ('i, unit, unit) example) \<Rightarrow> (zst_example + ('i, unit, unit) example)) \<Rightarrow>
     ((zst_example + ('i, unit, unit) example) \<Rightarrow> (zst_example + ('i, unit, unit) example)) \<Rightarrow>
     string dataset \<Rightarrow>
     string dataset \<times> (zst_example + ('i, unit, unit) example) list \<times> error option" where
  \<comment> \<open>\<open>__iter__\<close>: the dataset object after the pass, the examples it yields, and the
      exception that ends it, if one does\<close>
  "iter indices info sample get_fov_deg decode shape_of files perm
        apply_augmentation_shim apply_crop_shim self0 =
     (let self = iter_prologue indices info self0
      in (self,
          run (map (map_step (emit self apply_augmentation_shim apply_crop_shim))
                 (concat (map (chunk_steps self sample get_fov_deg decode shape_of files perm)
                            (chunks self))))))"

subsection \<open>Concrete inputs used in the examples below\<close>

definition example_cfg :: cfg where
  "example_cfg = \<lparr>baseline_epsilon = 1/1000, max_fov = 100, make_baseline_1 = True, augment = True,
           test_len = -1, test_chunk_interval = 1, test_times_per_scene = 1,
           skip_bad_shape = True, cfg_near = -1, cfg_far = -1,
           baseline_scale_bounds = True, shuffle_val = True, overfit_to_scene = None\<rparr>"

definition test_dataset :: "string list \<Rightarrow> string dataset" where
  "test_dataset cs = \<lparr>cfg = example_cfg, stage = Test, chunks = cs, near = 1/10, far = 1000\<rparr>"

definition example_pose :: "real list" where
  "example_pose = [1 / 2, 1 / 3, 1 / 4, 1 / 5, 0, 0, 1, 0, 0, 1, 0, 1, 0, 2, 0, 0, 1, 3]"

definition example_new_chunk :: "(unit, unit, unit) new_chunk" where
  "example_new_chunk =
     \<lparr>images = replicate 46 (), depths = replicate 46 (), positions = replicate 46 (),
      key = ''scene'', origin = replicate 46 (0, 0, 0)\<rparr>"

definition example_sampler :: sampler where
  "example_sampler = (\<lambda>scene e k. Some ([0, 1], [2, 3]))"

definition example_fov :: "real \<Rightarrow> fov" where
  "example_fov degrees = (\<lambda>k. Inr (replicate (length k) [degrees, degrees]))"

definition pose_a :: "real list" where
  "pose_a = [1 / 2, 1 / 2, 1 / 2, 1 / 2, 0, 0, 1, 0, 0, 0, 0, 1, 0, 0, 0, 0, 1, 0]"

definition pose_b :: "real list" where
  "pose_b = [1 / 2, 1 / 2, 1 / 2, 1 / 2, 0, 0, 1, 0, 0, - 2, 0, 1, 0, 0, 0, 0, 1, 0]"

definition example_torch :: "unit torch_example" where
  "example_torch = \<lparr>t_key = ''scene'', cameras = [pose_a, pose_b, pose_b],
                     t_images = [(), (), ()]\<rparr>"

definition torch_sampler :: sampler where
  "torch_sampler = (\<lambda>scene e k. Some ([1, 0], [2]))"

definition shift_x :: "real \<Rightarrow> mat" where
  "shift_x t = [[1, 0, 0, t], [0, 1, 0, 0], [0, 0, 1, 0], [0, 0, 0, 1]]"

definition half_k :: mat where
  "half_k = [[1 / 2, 0, 1 / 2], [0, 1 / 2, 1 / 2], [0, 0, 1]]"

definition cap_dataset :: "real \<Rightarrow> string dataset" where
  "cap_dataset cap = \<lparr>cfg = example_cfg\<lparr>max_fov := cap\<rparr>, stage = Test, chunks = [],
                       near = 1 / 10, far = 1000\<rparr>"

section \<open>Properties\<close>

subsection \<open>The basis built from a direction\<close>







subsection \<open>The camera matrix of a direction-encoded frame\<close>

lemma gfurt_pole: "get_forward_up_right_tensor (0, 0, 1) = (Some (0, 0, 1), None, None)"
  by (simp add: get_forward_up_right_tensor_def normalize_v_def cross_def)

lemma c2w_pole:
  "zst_c2w (0, 0, - 1) =
     [[None, None, Some 0, Some 0],
      [None, None, Some 0, Some 0],
      [None, None, Some 1, Some (4 / 5)],
      [Some 0, Some 0, Some 0, Some 1]]"
  by (simp add: zst_c2w_def gfurt_pole comps_def)

lemma take3_4: "take 3 [a, b, c, d] = [a, b, c]"
  by (simp add: eval_nat_numeral)

lemma length_comps: "length (comps v) = 3"
  by (simp add: comps_def split: option.splits prod.splits)

lemma list3: "length xs = 3 \<Longrightarrow> [xs ! 0, xs ! 1, xs ! 2] = xs"
  by (cases xs; cases "tl xs"; cases "tl (tl xs)") (auto simp: eval_nat_numeral)

text \<open>
  Claim C4 as stated: with the direction sample \<open>(0, 0, -1)\<close> at the principal pixel, the
  translation column of the matrix before inversion is \<open>(0, 0, -8)\<close>. The code has no
  camera centre other than the direction sample scaled by 0.8, so the column is
  \<open>(0, 0, 0.8)\<close>.
\<close>

theorem direction_path_translation_counterexample:
  "column 3 (zst_c2w (0, 0, - 1)) \<noteq> [Some 0, Some 0, Some (- 8)]"
  by (simp add: c2w_pole column_def take3_4)

text \<open>
  Claim C4, amended. For a frame with direction sample \<open>d\<close> at the principal pixel, the
  forward column of the matrix before inversion is the normalised negated sample, the
  camera centre used is \<open>0.8 * d\<close>, and the translation column is the negated centre.
  For the sample \<open>(0, 0, -1)\<close> the forward axis is \<open>(0, 0, 1)\<close>, the centre
  \<open>(0, 0, -0.8)\<close> and the translation column \<open>(0, 0, 0.8)\<close>.
\<close>

theorem direction_path_columns:
  "column 2 (zst_c2w (dx, dy, dz)) = comps (normalize_v (Some (- dx, - dy, - dz)))
 \<and> column 3 (zst_c2w (dx, dy, dz))
     = [Some (- (dx * 0.8)), Some (- (dy * 0.8)), Some (- (dz * 0.8))]
 \<and> column 2 (zst_c2w (0, 0, - 1)) = [Some 0, Some 0, Some 1]
 \<and> column 3 (zst_c2w (0, 0, - 1)) = [Some 0, Some 0, Some 0.8]"
proof -
  obtain f u r where g: "get_forward_up_right_tensor (- dx, - dy, - dz) = (f, u, r)"
    by (cases "get_forward_up_right_tensor (- dx, - dy, - dz)")
  then have f: "f = normalize_v (Some (- dx, - dy, - dz))"
    by (simp add: get_forward_up_right_tensor_def Let_def)
  have 1: "column 2 (zst_c2w (dx, dy, dz)) = comps f"
    using list3 [OF length_comps, of f]
    by (simp add: zst_c2w_def g column_def take3_4 Let_def eval_nat_numeral)
  have 2: "column 3 (zst_c2w (dx, dy, dz))
          = [Some (- (dx * 0.8)), Some (- (dy * 0.8)), Some (- (dz * 0.8))]"
    by (simp add: zst_c2w_def g column_def take3_4 Let_def)
  have 3: "column 2 (zst_c2w (0, 0, - 1)) = [Some 0, Some 0, Some 1]"
          "column 3 (zst_c2w (0, 0, - 1)) = [Some 0, Some 0, Some 0.8]"
    by (simp_all add: c2w_pole column_def take3_4)
  from 1 2 3 f show ?thesis by simp
qed

subsection \<open>Determinant, adjugate and inverse of a 4x4 matrix\<close>

lemma det3:
  "det [[a, b, c], [d, e, f], [g, h, i]] =
     a * (e * i - f * h) - b * (d * i - f * g) + c * (d * h - e * g)"
  by (simp add: det_def eval_nat_numeral minor_m_def del_def upt_rec algebra_simps)

lemma det4:
  "det [[a0, a1, a2, a3], [b0, b1, b2, b3], [c0, c1, c2, c3], [d0, d1, d2, d3]] =
     a0 * ((b1 * (c2 * d3 - c3 * d2) - b2 * (c1 * d3 - c3 * d1) + b3 * (c1 * d2 - c2 * d1))) + a1 * (- (b0 * (c2 * d3 - c3 * d2) - b2 * (c0 * d3 - c3 * d0) + b3 * (c0 * d2 - c2 * d0))) + a2 * ((b0 * (c1 * d3 - c3 * d1) - b1 * (c0 * d3 - c3 * d0) + b3 * (c0 * d1 - c1 * d0))) + a3 * (- (b0 * (c1 * d2 - c2 * d1) - b1 * (c0 * d2 - c2 * d0) + b2 * (c0 * d1 - c1 * d0)))"
  by (simp add: det_def eval_nat_numeral minor_m_def del_def upt_rec algebra_simps)

lemma adjugate4:
  "adjugate [[a0, a1, a2, a3], [b0, b1, b2, b3], [c0, c1, c2, c3], [d0, d1, d2, d3]] =
     [[(b1 * (c2 * d3 - c3 * d2) - b2 * (c1 * d3 - c3 * d1) + b3 * (c1 * d2 - c2 * d1)),
       - (a1 * (c2 * d3 - c3 * d2) - a2 * (c1 * d3 - c3 * d1) + a3 * (c1 * d2 - c2 * d1)),
       (a1 * (b2 * d3 - b3 * d2) - a2 * (b1 * d3 - b3 * d1) + a3 * (b1 * d2 - b2 * d1)),
       - (a1 * (b2 * c3 - b3 * c2) - a2 * (b1 * c3 - b3 * c1) + a3 * (b1 * c2 - b2 * c1))],
      [- (b0 * (c2 * d3 - c3 * d2) - b2 * (c0 * d3 - c3 * d0) + b3 * (c0 * d2 - c2 * d0)),
       (a0 * (c2 * d3 - c3 * d2) - a2 * (c0 * d3 - c3 * d0) + a3 * (c0 * d2 - c2 * d0)),
       - (a0 * (b2 * d3 - b3 * d2) - a2 * (b0 * d3 - b3 * d0) + a3 * (b0 * d2 - b2 * d0)),
       (a0 * (b2 * c3 - b3 * c2) - a2 * (b0 * c3 - b3 * c0) + a3 * (b0 * c2 - b2 * c0))],
      [(b0 * (c1 * d3 - c3 * d1) - b1 * (c0 * d3 - c3 * d0) + b3 * (c0 * d1 - c1 * d0)),
       - (a0 * (c1 * d3 - c3 * d1) - a1 * (c0 * d3 - c3 * d0) + a3 * (c0 * d1 - c1 * d0)),
       (a0 * (b1 * d3 - b3 * d1) - a1 * (b0 * d3 - b3 * d0) + a3 * (b0 * d1 - b1 * d0)),
       - (a0 * (b1 * c3 - b3 * c1) - a1 * (b0 * c3 - b3 * c0) + a3 * (b0 * c1 - b1 * c0))],
      [- (b0 * (c1 * d2 - c2 * d1) - b1 * (c0 * d2 - c2 * d0) + b2 * (c0 * d1 - c1 * d0)),
       (a0 * (c1 * d2 - c2 * d1) - a1 * (c0 * d2 - c2 * d0) + a2 * (c0 * d1 - c1 * d0)),
       - (a0 * (b1 * d2 - b2 * d1) - a1 * (b0 * d2 - b2 * d0) + a2 * (b0 * d1 - b1 * d0)),
       (a0 * (b1 * c2 - b2 * c1) - a1 * (b0 * c2 - b2 * c0) + a2 * (b0 * c1 - b1 * c0))]]"
  by (simp add: adjugate_def det3 eval_nat_numeral minor_m_def del_def upt_rec)

lemma cofactor_sums:
  fixes a0 :: real
  assumes "D = det [[a0, a1, a2, a3], [b0, b1, b2, b3], [c0, c1, c2, c3], [d0, d1, d2, d3]]"
  shows
    "a0 * ((b1 * (c2 * d3 - c3 * d2) - b2 * (c1 * d3 - c3 * d1) + b3 * (c1 * d2 - c2 * d1))) + a1 * (- (b0 * (c2 * d3 - c3 * d2) - b2 * (c0 * d3 - c3 * d0) + b3 * (c0 * d2 - c2 * d0))) + a2 * ((b0 * (c1 * d3 - c3 * d1) - b1 * (c0 * d3 - c3 * d0) + b3 * (c0 * d1 - c1 * d0))) + a3 * (- (b0 * (c1 * d2 - c2 * d1) - b1 * (c0 * d2 - c2 * d0) + b2 * (c0 * d1 - c1 * d0))) = D"
    "a0 * (- (a1 * (c2 * d3 - c3 * d2) - a2 * (c1 * d3 - c3 * d1) + a3 * (c1 * d2 - c2 * d1))) + a1 * ((a0 * (c2 * d3 - c3 * d2) - a2 * (c0 * d3 - c3 * d0) + a3 * (c0 * d2 - c2 * d0))) + a2 * (- (a0 * (c1 * d3 - c3 * d1) - a1 * (c0 * d3 - c3 * d0) + a3 * (c0 * d1 - c1 * d0))) + a3 * ((a0 * (c1 * d2 - c2 * d1) - a1 * (c0 * d2 - c2 * d0) + a2 * (c0 * d1 - c1 * d0))) = 0"
    "a0 * ((a1 * (b2 * d3 - b3 * d2) - a2 * (b1 * d3 - b3 * d1) + a3 * (b1 * d2 - b2 * d1))) + a1 * (- (a0 * (b2 * d3 - b3 * d2) - a2 * (b0 * d3 - b3 * d0) + a3 * (b0 * d2 - b2 * d0))) + a2 * ((a0 * (b1 * d3 - b3 * d1) - a1 * (b0 * d3 - b3 * d0) + a3 * (b0 * d1 - b1 * d0))) + a3 * (- (a0 * (b1 * d2 - b2 * d1) - a1 * (b0 * d2 - b2 * d0) + a2 * (b0 * d1 - b1 * d0))) = 0"
    "a0 * (- (a1 * (b2 * c3 - b3 * c2) - a2 * (b1 * c3 - b3 * c1) + a3 * (b1 * c2 - b2 * c1))) + a1 * ((a0 * (b2 * c3 - b3 * c2) - a2 * (b0 * c3 - b3 * c0) + a3 * (b0 * c2 - b2 * c0))) + a2 * (- (a0 * (b1 * c3 - b3 * c1) - a1 * (b0 * c3 - b3 * c0) + a3 * (b0 * c1 - b1 * c0))) + a3 * ((a0 * (b1 * c2 - b2 * c1) - a1 * (b0 * c2 - b2 * c0) + a2 * (b0 * c1 - b1 * c0))) = 0"
    "b0 * ((b1 * (c2 * d3 - c3 * d2) - b2 * (c1 * d3 - c3 * d1) + b3 * (c1 * d2 - c2 * d1))) + b1 * (- (b0 * (c2 * d3 - c3 * d2) - b2 * (c0 * d3 - c3 * d0) + b3 * (c0 * d2 - c2 * d0))) + b2 * ((b0 * (c1 * d3 - c3 * d1) - b1 * (c0 * d3 - c3 * d0) + b3 * (c0 * d1 - c1 * d0))) + b3 * (- (b0 * (c1 * d2 - c2 * d1) - b1 * (c0 * d2 - c2 * d0) + b2 * (c0 * d1 - c1 * d0))) = 0"
    "b0 * (- (a1 * (c2 * d3 - c3 * d2) - a2 * (c1 * d3 - c3 * d1) + a3 * (c1 * d2 - c2 * d1))) + b1 * ((a0 * (c2 * d3 - c3 * d2) - a2 * (c0 * d3 - c3 * d0) + a3 * (c0 * d2 - c2 * d0))) + b2 * (- (a0 * (c1 * d3 - c3 * d1) - a1 * (c0 * d3 - c3 * d0) + a3 * (c0 * d1 - c1 * d0))) + b3 * ((a0 * (c1 * d2 - c2 * d1) - a1 * (c0 * d2 - c2 * d0) + a2 * (c0 * d1 - c1 * d0))) = D"
    "b0 * ((a1 * (b2 * d3 - b3 * d2) - a2 * (b1 * d3 - b3 * d1) + a3 * (b1 * d2 - b2 * d1))) + b1 * (- (a0 * (b2 * d3 - b3 * d2) - a2 * (b0 * d3 - b3 * d0) + a3 * (b0 * d2 - b2 * d0))) + b2 * ((a0 * (b1 * d3 - b3 * d1) - a1 * (b0 * d3 - b3 * d0) + a3 * (b0 * d1 - b1 * d0))) + b3 * (- (a0 * (b1 * d2 - b2 * d1) - a1 * (b0 * d2 - b2 * d0) + a2 * (b0 * d1 - b1 * d0))) = 0"
    "b0 * (- (a1 * (b2 * c3 - b3 * c2) - a2 * (b1 * c3 - b3 * c1) + a3 * (b1 * c2 - b2 * c1))) + b1 * ((a0 * (b2 * c3 - b3 * c2) - a2 * (b0 * c3 - b3 * c0) + a3 * (b0 * c2 - b2 * c0))) + b2 * (- (a0 * (b1 * c3 - b3 * c1) - a1 * (b0 * c3 - b3 * c0) + a3 * (b0 * c1 - b1 * c0))) + b3 * ((a0 * (b1 * c2 - b2 * c1) - a1 * (b0 * c2 - b2 * c0) + a2 * (b0 * c1 - b1 * c0))) = 0"
    "c0 * ((b1 * (c2 * d3 - c3 * d2) - b2 * (c1 * d3 - c3 * d1) + b3 * (c1 * d2 - c2 * d1))) + c1 * (- (b0 * (c2 * d3 - c3 * d2) - b2 * (c0 * d3 - c3 * d0) + b3 * (c0 * d2 - c2 * d0))) + c2 * ((b0 * (c1 * d3 - c3 * d1) - b1 * (c0 * d3 - c3 * d0) + b3 * (c0 * d1 - c1 * d0))) + c3 * (- (b0 * (c1 * d2 - c2 * d1) - b1 * (c0 * d2 - c2 * d0) + b2 * (c0 * d1 - c1 * d0))) = 0"
    "c0 * (- (a1 * (c2 * d3 - c3 * d2) - a2 * (c1 * d3 - c3 * d1) + a3 * (c1 * d2 - c2 * d1))) + c1 * ((a0 * (c2 * d3 - c3 * d2) - a2 * (c0 * d3 - c3 * d0) + a3 * (c0 * d2 - c2 * d0))) + c2 * (- (a0 * (c1 * d3 - c3 * d1) - a1 * (c0 * d3 - c3 * d0) + a3 * (c0 * d1 - c1 * d0))) + c3 * ((a0 * (c1 * d2 - c2 * d1) - a1 * (c0 * d2 - c2 * d0) + a2 * (c0 * d1 - c1 * d0))) = 0"
    "c0 * ((a1 * (b2 * d3 - b3 * d2) - a2 * (b1 * d3 - b3 * d1) + a3 * (b1 * d2 - b2 * d1))) + c1 * (- (a0 * (b2 * d3 - b3 * d2) - a2 * (b0 * d3 - b3 * d0) + a3 * (b0 * d2 - b2 * d0))) + c2 * ((a0 * (b1 * d3 - b3 * d1) - a1 * (b0 * d3 - b3 * d0) + a3 * (b0 * d1 - b1 * d0))) + c3 * (- (a0 * (b1 * d2 - b2 * d1) - a1 * (b0 * d2 - b2 * d0) + a2 * (b0 * d1 - b1 * d0))) = D"
    "c0 * (- (a1 * (b2 * c3 - b3 * c2) - a2 * (b1 * c3 - b3 * c1) + a3 * (b1 * c2 - b2 * c1))) + c1 * ((a0 * (b2 * c3 - b3 * c2) - a2 * (b0 * c3 - b3 * c0) + a3 * (b0 * c2 - b2 * c0))) + c2 * (- (a0 * (b1 * c3 - b3 * c1) - a1 * (b0 * c3 - b3 * c0) + a3 * (b0 * c1 - b1 * c0))) + c3 * ((a0 * (b1 * c2 - b2 * c1) - a1 * (b0 * c2 - b2 * c0) + a2 * (b0 * c1 - b1 * c0))) = 0"
    "d0 * ((b1 * (c2 * d3 - c3 * d2) - b2 * (c1 * d3 - c3 * d1) + b3 * (c1 * d2 - c2 * d1))) + d1 * (- (b0 * (c2 * d3 - c3 * d2) - b2 * (c0 * d3 - c3 * d0) + b3 * (c0 * d2 - c2 * d0))) + d2 * ((b0 * (c1 * d3 - c3 * d1) - b1 * (c0 * d3 - c3 * d0) + b3 * (c0 * d1 - c1 * d0))) + d3 * (- (b0 * (c1 * d2 - c2 * d1) - b1 * (c0 * d2 - c2 * d0) + b2 * (c0 * d1 - c1 * d0))) = 0"
    "d0 * (- (a1 * (c2 * d3 - c3 * d2) - a2 * (c1 * d3 - c3 * d1) + a3 * (c1 * d2 - c2 * d1))) + d1 * ((a0 * (c2 * d3 - c3 * d2) - a2 * (c0 * d3 - c3 * d0) + a3 * (c0 * d2 - c2 * d0))) + d2 * (- (a0 * (c1 * d3 - c3 * d1) - a1 * (c0 * d3 - c3 * d0) + a3 * (c0 * d1 - c1 * d0))) + d3 * ((a0 * (c1 * d2 - c2 * d1) - a1 * (c0 * d2 - c2 * d0) + a2 * (c0 * d1 - c1 * d0))) = 0"
    "d0 * ((a1 * (b2 * d3 - b3 * d2) - a2 * (b1 * d3 - b3 * d1) + a3 * (b1 * d2 - b2 * d1))) + d1 * (- (a0 * (b2 * d3 - b3 * d2) - a2 * (b0 * d3 - b3 * d0) + a3 * (b0 * d2 - b2 * d0))) + d2 * ((a0 * (b1 * d3 - b3 * d1) - a1 * (b0 * d3 - b3 * d0) + a3 * (b0 * d1 - b1 * d0))) + d3 * (- (a0 * (b1 * d2 - b2 * d1) - a1 * (b0 * d2 - b2 * d0) + a2 * (b0 * d1 - b1 * d0))) = 0"
    "d0 * (- (a1 * (b2 * c3 - b3 * c2) - a2 * (b1 * c3 - b3 * c1) + a3 * (b1 * c2 - b2 * c1))) + d1 * ((a0 * (b2 * c3 - b3 * c2) - a2 * (b0 * c3 - b3 * c0) + a3 * (b0 * c2 - b2 * c0))) + d2 * (- (a0 * (b1 * c3 - b3 * c1) - a1 * (b0 * c3 - b3 * c0) + a3 * (b0 * c1 - b1 * c0))) + d3 * ((a0 * (b1 * c2 - b2 * c1) - a1 * (b0 * c2 - b2 * c0) + a2 * (b0 * c1 - b1 * c0))) = D"
    "((b1 * (c2 * d3 - c3 * d2) - b2 * (c1 * d3 - c3 * d1) + b3 * (c1 * d2 - c2 * d1))) * a0 + (- (a1 * (c2 * d3 - c3 * d2) - a2 * (c1 * d3 - c3 * d1) + a3 * (c1 * d2 - c2 * d1))) * b0 + ((a1 * (b2 * d3 - b3 * d2) - a2 * (b1 * d3 - b3 * d1) + a3 * (b1 * d2 - b2 * d1))) * c0 + (- (a1 * (b2 * c3 - b3 * c2) - a2 * (b1 * c3 - b3 * c1) + a3 * (b1 * c2 - b2 * c1))) * d0 = D"
    "((b1 * (c2 * d3 - c3 * d2) - b2 * (c1 * d3 - c3 * d1) + b3 * (c1 * d2 - c2 * d1))) * a1 + (- (a1 * (c2 * d3 - c3 * d2) - a2 * (c1 * d3 - c3 * d1) + a3 * (c1 * d2 - c2 * d1))) * b1 + ((a1 * (b2 * d3 - b3 * d2) - a2 * (b1 * d3 - b3 * d1) + a3 * (b1 * d2 - b2 * d1))) * c1 + (- (a1 * (b2 * c3 - b3 * c2) - a2 * (b1 * c3 - b3 * c1) + a3 * (b1 * c2 - b2 * c1))) * d1 = 0"
    "((b1 * (c2 * d3 - c3 * d2) - b2 * (c1 * d3 - c3 * d1) + b3 * (c1 * d2 - c2 * d1))) * a2 + (- (a1 * (c2 * d3 - c3 * d2) - a2 * (c1 * d3 - c3 * d1) + a3 * (c1 * d2 - c2 * d1))) * b2 + ((a1 * (b2 * d3 - b3 * d2) - a2 * (b1 * d3 - b3 * d1) + a3 * (b1 * d2 - b2 * d1))) * c2 + (- (a1 * (b2 * c3 - b3 * c2) - a2 * (b1 * c3 - b3 * c1) + a3 * (b1 * c2 - b2 * c1))) * d2 = 0"
    "((b1 * (c2 * d3 - c3 * d2) - b2 * (c1 * d3 - c3 * d1) + b3 * (c1 * d2 - c2 * d1))) * a3 + (- (a1 * (c2 * d3 - c3 * d2) - a2 * (c1 * d3 - c3 * d1) + a3 * (c1 * d2 - c2 * d1))) * b3 + ((a1 * (b2 * d3 - b3 * d2) - a2 * (b1 * d3 - b3 * d1) + a3 * (b1 * d2 - b2 * d1))) * c3 + (- (a1 * (b2 * c3 - b3 * c2) - a2 * (b1 * c3 - b3 * c1) + a3 * (b1 * c2 - b2 * c1))) * d3 = 0"
    "(- (b0 * (c2 * d3 - c3 * d2) - b2 * (c0 * d3 - c3 * d0) + b3 * (c0 * d2 - c2 * d0))) * a0 + ((a0 * (c2 * d3 - c3 * d2) - a2 * (c0 * d3 - c3 * d0) + a3 * (c0 * d2 - c2 * d0))) * b0 + (- (a0 * (b2 * d3 - b3 * d2) - a2 * (b0 * d3 - b3 * d0) + a3 * (b0 * d2 - b2 * d0))) * c0 + ((a0 * (b2 * c3 - b3 * c2) - a2 * (b0 * c3 - b3 * c0) + a3 * (b0 * c2 - b2 * c0))) * d0 = 0"
    "(- (b0 * (c2 * d3 - c3 * d2) - b2 * (c0 * d3 - c3 * d0) + b3 * (c0 * d2 - c2 * d0))) * a1 + ((a0 * (c2 * d3 - c3 * d2) - a2 * (c0 * d3 - c3 * d0) + a3 * (c0 * d2 - c2 * d0))) * b1 + (- (a0 * (b2 * d3 - b3 * d2) - a2 * (b0 * d3 - b3 * d0) + a3 * (b0 * d2 - b2 * d0))) * c1 + ((a0 * (b2 * c3 - b3 * c2) - a2 * (b0 * c3 - b3 * c0) + a3 * (b0 * c2 - b2 * c0))) * d1 = D"
    "(- (b0 * (c2 * d3 - c3 * d2) - b2 * (c0 * d3 - c3 * d0) + b3 * (c0 * d2 - c2 * d0))) * a2 + ((a0 * (c2 * d3 - c3 * d2) - a2 * (c0 * d3 - c3 * d0) + a3 * (c0 * d2 - c2 * d0))) * b2 + (- (a0 * (b2 * d3 - b3 * d2) - a2 * (b0 * d3 - b3 * d0) + a3 * (b0 * d2 - b2 * d0))) * c2 + ((a0 * (b2 * c3 - b3 * c2) - a2 * (b0 * c3 - b3 * c0) + a3 * (b0 * c2 - b2 * c0))) * d2 = 0"
    "(- (b0 * (c2 * d3 - c3 * d2) - b2 * (c0 * d3 - c3 * d0) + b3 * (c0 * d2 - c2 * d0))) * a3 + ((a0 * (c2 * d3 - c3 * d2) - a2 * (c0 * d3 - c3 * d0) + a3 * (c0 * d2 - c2 * d0))) * b3 + (- (a0 * (b2 * d3 - b3 * d2) - a2 * (b0 * d3 - b3 * d0) + a3 * (b0 * d2 - b2 * d0))) * c3 + ((a0 * (b2 * c3 - b3 * c2) - a2 * (b0 * c3 - b3 * c0) + a3 * (b0 * c2 - b2 * c0))) * d3 = 0"
    "((b0 * (c1 * d3 - c3 * d1) - b1 * (c0 * d3 - c3 * d0) + b3 * (c0 * d1 - c1 * d0))) * a0 + (- (a0 * (c1 * d3 - c3 * d1) - a1 * (c0 * d3 - c3 * d0) + a3 * (c0 * d1 - c1 * d0))) * b0 + ((a0 * (b1 * d3 - b3 * d1) - a1 * (b0 * d3 - b3 * d0) + a3 * (b0 * d1 - b1 * d0))) * c0 + (- (a0 * (b1 * c3 - b3 * c1) - a1 * (b0 * c3 - b3 * c0) + a3 * (b0 * c1 - b1 * c0))) * d0 = 0"
    "((b0 * (c1 * d3 - c3 * d1) - b1 * (c0 * d3 - c3 * d0) + b3 * (c0 * d1 - c1 * d0))) * a1 + (- (a0 * (c1 * d3 - c3 * d1) - a1 * (c0 * d3 - c3 * d0) + a3 * (c0 * d1 - c1 * d0))) * b1 + ((a0 * (b1 * d3 - b3 * d1) - a1 * (b0 * d3 - b3 * d0) + a3 * (b0 * d1 - b1 * d0))) * c1 + (- (a0 * (b1 * c3 - b3 * c1) - a1 * (b0 * c3 - b3 * c0) + a3 * (b0 * c1 - b1 * c0))) * d1 = 0"
    "((b0 * (c1 * d3 - c3 * d1) - b1 * (c0 * d3 - c3 * d0) + b3 * (c0 * d1 - c1 * d0))) * a2 + (- (a0 * (c1 * d3 - c3 * d1) - a1 * (c0 * d3 - c3 * d0) + a3 * (c0 * d1 - c1 * d0))) * b2 + ((a0 * (b1 * d3 - b3 * d1) - a1 * (b0 * d3 - b3 * d0) + a3 * (b0 * d1 - b1 * d0))) * c2 + (- (a0 * (b1 * c3 - b3 * c1) - a1 * (b0 * c3 - b3 * c0) + a3 * (b0 * c1 - b1 * c0))) * d2 = D"
    "((b0 * (c1 * d3 - c3 * d1) - b1 * (c0 * d3 - c3 * d0) + b3 * (c0 * d1 - c1 * d0))) * a3 + (- (a0 * (c1 * d3 - c3 * d1) - a1 * (c0 * d3 - c3 * d0) + a3 * (c0 * d1 - c1 * d0))) * b3 + ((a0 * (b1 * d3 - b3 * d1) - a1 * (b0 * d3 - b3 * d0) + a3 * (b0 * d1 - b1 * d0))) * c3 + (- (a0 * (b1 * c3 - b3 * c1) - a1 * (b0 * c3 - b3 * c0) + a3 * (b0 * c1 - b1 * c0))) * d3 = 0"
    "(- (b0 * (c1 * d2 - c2 * d1) - b1 * (c0 * d2 - c2 * d0) + b2 * (c0 * d1 - c1 * d0))) * a0 + ((a0 * (c1 * d2 - c2 * d1) - a1 * (c0 * d2 - c2 * d0) + a2 * (c0 * d1 - c1 * d0))) * b0 + (- (a0 * (b1 * d2 - b2 * d1) - a1 * (b0 * d2 - b2 * d0) + a2 * (b0 * d1 - b1 * d0))) * c0 + ((a0 * (b1 * c2 - b2 * c1) - a1 * (b0 * c2 - b2 * c0) + a2 * (b0 * c1 - b1 * c0))) * d0 = 0"
    "(- (b0 * (c1 * d2 - c2 * d1) - b1 * (c0 * d2 - c2 * d0) + b2 * (c0 * d1 - c1 * d0))) * a1 + ((a0 * (c1 * d2 - c2 * d1) - a1 * (c0 * d2 - c2 * d0) + a2 * (c0 * d1 - c1 * d0))) * b1 + (- (a0 * (b1 * d2 - b2 * d1) - a1 * (b0 * d2 - b2 * d0) + a2 * (b0 * d1 - b1 * d0))) * c1 + ((a0 * (b1 * c2 - b2 * c1) - a1 * (b0 * c2 - b2 * c0) + a2 * (b0 * c1 - b1 * c0))) * d1 = 0"
    "(- (b0 * (c1 * d2 - c2 * d1) - b1 * (c0 * d2 - c2 * d0) + b2 * (c0 * d1 - c1 * d0))) * a2 + ((a0 * (c1 * d2 - c2 * d1) - a1 * (c0 * d2 - c2 * d0) + a2 * (c0 * d1 - c1 * d0))) * b2 + (- (a0 * (b1 * d2 - b2 * d1) - a1 * (b0 * d2 - b2 * d0) + a2 * (b0 * d1 - b1 * d0))) * c2 + ((a0 * (b1 * c2 - b2 * c1) - a1 * (b0 * c2 - b2 * c0) + a2 * (b0 * c1 - b1 * c0))) * d2 = 0"
    "(- (b0 * (c1 * d2 - c2 * d1) - b1 * (c0 * d2 - c2 * d0) + b2 * (c0 * d1 - c1 * d0))) * a3 + ((a0 * (c1 * d2 - c2 * d1) - a1 * (c0 * d2 - c2 * d0) + a2 * (c0 * d1 - c1 * d0))) * b3 + (- (a0 * (b1 * d2 - b2 * d1) - a1 * (b0 * d2 - b2 * d0) + a2 * (b0 * d1 - b1 * d0))) * c3 + ((a0 * (b1 * c2 - b2 * c1) - a1 * (b0 * c2 - b2 * c0) + a2 * (b0 * c1 - b1 * c0))) * d3 = D"
  unfolding assms det4 by algebra+

lemma upt4: "[0..<4] = [0, 1, 2, 3]" "[0..<3] = [0, 1, 2]"
  by (simp_all add: upt_rec)

lemma eye4: "eye 4 = [[1,0,0,0],[0,1,0,0],[0,0,1,0],[0,0,0,1]]"
  by (simp add: eye_def upt4)

lemma matmul4:
  "matmul [[a0,a1,a2,a3],[b0,b1,b2,b3],[c0,c1,c2,c3],[d0,d1,d2,d3]]
          [[p0,p1,p2,p3],[q0,q1,q2,q3],[r0,r1,r2,r3],[s0,s1,s2,s3]] =
   [[a0*p0+a1*q0+a2*r0+a3*s0, a0*p1+a1*q1+a2*r1+a3*s1, a0*p2+a1*q2+a2*r2+a3*s2, a0*p3+a1*q3+a2*r3+a3*s3],
    [b0*p0+b1*q0+b2*r0+b3*s0, b0*p1+b1*q1+b2*r1+b3*s1, b0*p2+b1*q2+b2*r2+b3*s2, b0*p3+b1*q3+b2*r3+b3*s3],
    [c0*p0+c1*q0+c2*r0+c3*s0, c0*p1+c1*q1+c2*r1+c3*s1, c0*p2+c1*q2+c2*r2+c3*s2, c0*p3+c1*q3+c2*r3+c3*s3],
    [d0*p0+d1*q0+d2*r0+d3*s0, d0*p1+d1*q1+d2*r1+d3*s1, d0*p2+d1*q2+d2*r2+d3*s2, d0*p3+d1*q3+d2*r3+d3*s3]]"
  by (simp add: matmul_def upt4)

lemma inverse_m4:
  fixes a0 :: real
  assumes "inverse_m [[a0,a1,a2,a3],[b0,b1,b2,b3],[c0,c1,c2,c3],[d0,d1,d2,d3]] = Inr e"
  shows "matmul [[a0,a1,a2,a3],[b0,b1,b2,b3],[c0,c1,c2,c3],[d0,d1,d2,d3]] e = eye 4"
    and "matmul e [[a0,a1,a2,a3],[b0,b1,b2,b3],[c0,c1,c2,c3],[d0,d1,d2,d3]] = eye 4"
proof -
  let ?m = "[[a0,a1,a2,a3],[b0,b1,b2,b3],[c0,c1,c2,c3],[d0,d1,d2,d3]]"
  define D where "D = det ?m"
  have D: "D \<noteq> 0" and e: "e = map (map (\<lambda>x. x / D)) (adjugate ?m)"
    using assms by (auto simp: inverse_m_def D_def split: if_splits)
  note cs = cofactor_sums [OF D_def]
  have div: "x * (y / D) = (x * y) / D" "(y / D) * x = (y * x) / D"
            "u / D + v / D = (u + v) / D" for x y u v :: real
    by (simp_all add: add_divide_distrib)
  show "matmul ?m e = eye 4"
    unfolding e adjugate4 eye4 by (simp only: list.map matmul4 div cs) (simp add: D)
  show "matmul e ?m = eye 4"
    unfolding e adjugate4 eye4 by (simp only: list.map matmul4 div cs) (simp add: D)
qed



subsection \<open>The pose-vector conversion\<close>

lemma upt18: "[0..<18] = [0, 1, 2, 3, 4, 5, 6, 7, 8, 9, 10, 11, 12, 13, 14, 15, 16, 17]"
  by (simp add: upt_rec)

lemma list18:
  assumes "length p = 18"
  shows "p = [p!0, p!1, p!2, p!3, p!4, p!5, p!6, p!7, p!8, p!9, p!10, p!11, p!12, p!13,
              p!14, p!15, p!16, p!17]"
proof -
  have "map ((!) p) [0..<18] = p" using map_nth [of p] assms by simp
  then show ?thesis unfolding upt18 by simp
qed

lemma chop4_12:
  "chop 4 [x6, x7, x8, x9, x10, x11, x12, x13, x14, x15, x16, x17]
     = [[x6, x7, x8, x9], [x10, x11, x12, x13], [x14, x15, x16, x17]]"
proof -
  have l: "length [x6, x7, x8, x9, x10, x11, x12, x13, x14, x15, x16, x17] div 4 = 3"
    by simp
  show ?thesis unfolding chop_def l upt4 by simp
qed

lemma w2c_of_rows:
  assumes "length p = 18"
  shows "w2c_of p = [[p!6, p!7, p!8, p!9], [p!10, p!11, p!12, p!13],
                     [p!14, p!15, p!16, p!17], [0, 0, 0, 1]]"
proof -
  have "drop 6 p = [p!6, p!7, p!8, p!9, p!10, p!11, p!12, p!13, p!14, p!15, p!16, p!17]"
    by (subst list18 [OF assms]) simp
  then show ?thesis by (simp add: w2c_of_def chop4_12)
qed

lemma collect_map_Inr:
  "collect (map f xs) = Inr ys \<Longrightarrow>
     length ys = length xs \<and> (\<forall>i<length xs. f (xs ! i) = Inr (ys ! i))"
proof (induction xs arbitrary: ys)
  case Nil
  then show ?case by simp
next
  case (Cons x xs)
  then show ?case
    by (cases "f x"; cases "collect (map f xs)") (auto simp: nth_Cons' )
qed

lemma collect_map_total:
  "list_all (\<lambda>x. \<exists>y. f x = Inr y) xs \<Longrightarrow> \<exists>ys. collect (map f xs) = Inr ys"
  by (induction xs) auto

lemma inverse_m_w2c:
  assumes "length p = 18" "inverse_m (w2c_of p) = Inr e"
  shows "matmul e (w2c_of p) = eye 4" "matmul (w2c_of p) e = eye 4"
proof -
  note r = w2c_of_rows [OF assms(1)]
  from assms(2) have i: "inverse_m [[p!6, p!7, p!8, p!9], [p!10, p!11, p!12, p!13],
                     [p!14, p!15, p!16, p!17], [0, 0, 0, 1]] = Inr e"
    unfolding r .
  show "matmul e (w2c_of p) = eye 4" unfolding r by (rule inverse_m4(2) [OF i])
  show "matmul (w2c_of p) e = eye 4" unfolding r by (rule inverse_m4(1) [OF i])
qed

text \<open>
  Claim C2 as stated: the 12 extrinsic values are the entries of the 18-vector that
  remain after the four intrinsic scalars. Fourteen entries remain; the code reads the
  last twelve (\<open>poses[:, 6:]\<close>) and never reads the entries at positions 4 and 5. For
  the pose vector \<open>0, 1, \<dots>, 17\<close> the 3x4 block is neither the remaining entries nor
  the first twelve of them.
\<close>

theorem convert_poses_remaining_counterexample:
  "concat (take 3 (w2c_of [0, 1, 2, 3, 4, 5, 6, 7, 8, 9, 10, 11, 12, 13, 14, 15, 16, 17]))
     \<noteq> drop 4 [0, 1, 2, 3, 4, 5, 6, 7, 8, 9, 10, 11, 12, 13, 14, 15, 16, 17]
 \<and> concat (take 3 (w2c_of [0, 1, 2, 3, 4, 5, 6, 7, 8, 9, 10, 11, 12, 13, 14, 15, 16, 17]))
     \<noteq> take 12 (drop 4 [0, 1, 2, 3, 4, 5, 6, 7, 8, 9, 10, 11, 12, 13, 14, 15, 16, 17])"
  by (simp add: w2c_of_rows take3_4)

text \<open>
  Claim C2, amended. For a non-empty batch of 18-element pose vectors whose stored
  matrices are invertible, \<open>convert_poses\<close> returns. The intrinsics of a vector are the
  3x3 identity with the entries 0, 1, 2, 3 of the vector (fx, fy, cx, cy) at the positions
  (0,0), (1,1), (0,2), (1,2). The stored 4x4 matrix has the entries 6..17 of the vector,
  row-major, as its top three rows and \<open>[0, 0, 0, 1]\<close> as its bottom row; the entries 4
  and 5 are not used. The returned extrinsics are the inverse of the stored matrix: their
  product with it, on either side, is the identity.
\<close>

theorem convert_poses_layout:
  assumes "poses \<noteq> []"
    and "list_all (\<lambda>p. length p = 18) poses"
    and "list_all (\<lambda>p. det (w2c_of p) \<noteq> 0) poses"
  shows "\<exists>extr. convert_poses poses = Inr (extr, map intrinsics_of poses)
          \<and> length extr = length poses
          \<and> (\<forall>i<length poses.
                intrinsics_of (poses ! i)
                  = [[poses ! i ! 0, 0, poses ! i ! 2], [0, poses ! i ! 1, poses ! i ! 3], [0, 0, 1]]
              \<and> w2c_of (poses ! i)
                  = [[poses ! i ! 6, poses ! i ! 7, poses ! i ! 8, poses ! i ! 9],
                     [poses ! i ! 10, poses ! i ! 11, poses ! i ! 12, poses ! i ! 13],
                     [poses ! i ! 14, poses ! i ! 15, poses ! i ! 16, poses ! i ! 17],
                     [0, 0, 0, 1]]
              \<and> inverse_m (w2c_of (poses ! i)) = Inr (extr ! i)
              \<and> matmul (extr ! i) (w2c_of (poses ! i)) = eye 4
              \<and> matmul (w2c_of (poses ! i)) (extr ! i) = eye 4)"
proof -
  have len: "length (poses ! i) = 18" if "i < length poses" for i
    using assms(2) that by (simp add: list_all_length)
  have "list_all (\<lambda>p. \<exists>y. inverse_m (w2c_of p) = Inr y) poses"
    using assms(3) by (simp add: list_all_iff inverse_m_def)
  from collect_map_total [OF this] obtain extr where
    c: "collect (map (\<lambda>p. inverse_m (w2c_of p)) poses) = Inr extr" by blast
  have ns: "\<not> list_ex (\<lambda>p. length p \<noteq> 18) poses"
    using assms(2) by (simp add: list_all_iff list_ex_iff)
  have 1: "convert_poses poses = Inr (extr, map intrinsics_of poses)"
    using assms(1) ns c by (simp add: convert_poses_def)
  from collect_map_Inr [OF c] have
    l: "length extr = length poses"
    and inv: "\<And>i. i < length poses \<Longrightarrow> inverse_m (w2c_of (poses ! i)) = Inr (extr ! i)"
    by simp_all
  have "intrinsics_of (poses ! i)
            = [[poses ! i ! 0, 0, poses ! i ! 2], [0, poses ! i ! 1, poses ! i ! 3], [0, 0, 1]]
          \<and> w2c_of (poses ! i)
            = [[poses ! i ! 6, poses ! i ! 7, poses ! i ! 8, poses ! i ! 9],
               [poses ! i ! 10, poses ! i ! 11, poses ! i ! 12, poses ! i ! 13],
               [poses ! i ! 14, poses ! i ! 15, poses ! i ! 16, poses ! i ! 17],
               [0, 0, 0, 1]]
          \<and> inverse_m (w2c_of (poses ! i)) = Inr (extr ! i)
          \<and> matmul (extr ! i) (w2c_of (poses ! i)) = eye 4
          \<and> matmul (w2c_of (poses ! i)) (extr ! i) = eye 4" if "i < length poses" for i
    using inverse_m_w2c [OF len [OF that] inv [OF that]] inv [OF that]
          w2c_of_rows [OF len [OF that]]
    by (simp only: intrinsics_of_def simp_thms)
  with 1 l show ?thesis by blast
qed


lemma inverse_m_example:
  "inverse_m [[1, 0, 0, 1], [0, 1, 0, 2], [0, 0, 1, 3], [0, 0, 0, 1]]
     = Inr [[1, 0, 0, - 1], [0, 1, 0, - 2], [0, 0, 1, - 3], [0, 0, 0, 1]]"
  by (simp add: inverse_m_def det4 adjugate4)

theorem convert_poses_layout_witness:
  "[example_pose] \<noteq> []
   \<and> list_all (\<lambda>p. length p = 18) [example_pose]
   \<and> list_all (\<lambda>p. det (w2c_of p) \<noteq> 0) [example_pose]
   \<and> convert_poses [example_pose]
       = Inr ([[[1, 0, 0, - 1], [0, 1, 0, - 2], [0, 0, 1, - 3], [0, 0, 0, 1]]],
              [[[1 / 2, 0, 1 / 4], [0, 1 / 3, 1 / 5], [0, 0, 1]]])
   \<and> w2c_of example_pose = [[1, 0, 0, 1], [0, 1, 0, 2], [0, 0, 1, 3], [0, 0, 0, 1]]
   \<and> matmul [[1, 0, 0, - 1], [0, 1, 0, - 2], [0, 0, 1, - 3], [0, 0, 0, 1]]
             (w2c_of example_pose) = eye 4"
proof -
  have l: "length example_pose = 18" by (simp add: example_pose_def)
  have w: "w2c_of example_pose = [[1, 0, 0, 1], [0, 1, 0, 2], [0, 0, 1, 3], [0, 0, 0, 1]]"
    unfolding w2c_of_rows [OF l] by (simp add: example_pose_def)
  have d: "det (w2c_of example_pose) \<noteq> 0" unfolding w by (simp add: det4)
  have h: "[example_pose] \<noteq> []" "list_all (\<lambda>p. length p = 18) [example_pose]"
          "list_all (\<lambda>p. det (w2c_of p) \<noteq> 0) [example_pose]"
    using l d by simp_all
  have i: "intrinsics_of example_pose = [[1 / 2, 0, 1 / 4], [0, 1 / 3, 1 / 5], [0, 0, 1]]"
    by (simp add: intrinsics_of_def example_pose_def)
  from convert_poses_layout [OF h] obtain extr where
    e: "convert_poses [example_pose] = Inr (extr, map intrinsics_of [example_pose])"
       "length extr = 1"
       "inverse_m (w2c_of example_pose) = Inr (extr ! 0)"
       "matmul (extr ! 0) (w2c_of example_pose) = eye 4"
    by auto
  from e(3) have "extr ! 0 = [[1, 0, 0, - 1], [0, 1, 0, - 2], [0, 0, 1, - 3], [0, 0, 0, 1]]"
    unfolding w inverse_m_example by simp
  moreover from e(2) have "extr = [extr ! 0]"
    by (cases extr) simp_all
  ultimately have x: "extr = [[[1, 0, 0, - 1], [0, 1, 0, - 2], [0, 0, 1, - 3], [0, 0, 0, 1]]]"
    by simp
  from e(1) e(4) show ?thesis using h w i unfolding x by simp
qed

subsection \<open>The scene loop\<close>

lemma attempt_Yield:
  "attempt r f = Yield y \<longleftrightarrow> (\<exists>x. r = Inr x \<and> f x = Yield y)"
  by (cases r) auto


lemma bind_Inr:
  "bind r f = Inr y \<longleftrightarrow> (\<exists>x. r = Inr x \<and> f x = Inr y)"
  by (cases r) auto

lemma gather_Inr:
  "gather xs is = Inr ys \<longleftrightarrow> list_all (\<lambda>i. i < length xs) is \<and> ys = map (\<lambda>i. xs ! i) is"
  by (auto simp: gather_def)

lemma gather_cat_Inr:
  "gather_cat xs is = Inr ys \<longleftrightarrow>
     list_all (\<lambda>i. i < length xs) is \<and> is \<noteq> [] \<and> ys = map (\<lambda>i. xs ! i) is"
  by (auto simp: gather_cat_def gather_def)

lemma make_views_Inr:
  "make_views self nf e k indices imgs ds ps = Inr v \<longleftrightarrow>
     list_all (\<lambda>i. i < length e) indices \<and> list_all (\<lambda>i. i < length k) indices
     \<and> v = views_of self nf e k indices imgs ds ps"
  by (auto simp: make_views_def bind_Inr gather_Inr views_of_def get_bound_def)

lemma assemble_Yield:
  "assemble self sc e k ctx tgt ci ti cd td cp tp = Yield (ex, scale) \<longleftrightarrow>
     (\<exists>e1. resize_world (cfg self) e ctx = Yield (scale, e1)
        \<and> list_all (\<lambda>i. i < length e1) ctx \<and> list_all (\<lambda>i. i < length k) ctx
        \<and> list_all (\<lambda>i. i < length e1) tgt \<and> list_all (\<lambda>i. i < length k) tgt
        \<and> ex = \<lparr>context_views =
                   views_of self (if baseline_scale_bounds (cfg self) then scale else 1)
                     e1 k ctx ci cd cp,
                 target_views =
                   views_of self (if baseline_scale_bounds (cfg self) then scale else 1)
                     e1 k tgt ti td tp,
                 scene = sc\<rparr>)"
  by (cases "resize_world (cfg self) e ctx")
     (auto simp: assemble_def Let_def attempt_Yield make_views_Inr)


lemma resize_world_not_two:
  assumes "length ctx \<noteq> 2 \<or> \<not> make_baseline_1 c"
  shows "resize_world c e ctx = Yield r \<longleftrightarrow>
           list_all is_4x4 e \<and> list_all (\<lambda>i. i < length e) ctx
           \<and> r = (1, map (map (map Some)) e)"
  using assms by (auto simp: resize_world_def attempt_Yield gather_Inr)


lemma replicate4: "replicate 4 x = [x, x, x, x]"
  by (simp add: eval_nat_numeral)

lemma fdiv_1: "fdiv x 1 = Some x" by (simp add: fdiv_def)

lemma process_zst_scene_Yield:
  "process_zst_scene self sample get_fov_deg example0 e k = Yield r \<longleftrightarrow>
     (\<exists>c t fovs. sample (key example0) e k = Some (c, t)
        \<and> get_fov_deg k = Inr fovs \<and> \<not> too_wide (max_fov (cfg self)) fovs
        \<and> list_all (\<lambda>i. i < length (images example0)) ([9, 15, 34, 45] @ t)
        \<and> list_all (\<lambda>i. i < length (depths example0)) ([9, 15, 34, 45] @ t)
        \<and> list_all (\<lambda>i. i < length (positions example0)) ([9, 15, 34, 45] @ t)
        \<and> t \<noteq> []
        \<and> assemble self (key example0) e k [9, 15, 34, 45] t
             (map (\<lambda>i. images example0 ! i) [9, 15, 34, 45]) (map (\<lambda>i. images example0 ! i) t)
             (Some (map (\<lambda>i. depths example0 ! i) [9, 15, 34, 45]))
             (Some (map (\<lambda>i. depths example0 ! i) t))
             (Some (map (\<lambda>i. positions example0 ! i) [9, 15, 34, 45]))
             (Some (map (\<lambda>i. positions example0 ! i) t)) = Yield r)"
  by (cases "sample (key example0) e k")
     (auto simp: process_zst_scene_def Let_def attempt_Yield gather_cat_Inr split: if_splits)


text \<open>
  Claim C8. In the direction-encoded path the context index list is the literal
  \<open>[9, 15, 34, 45]\<close>, of length 4, so the branch that needs exactly two context views is
  never taken: whatever \<open>make_baseline_1\<close> and \<open>baseline_scale_bounds\<close> are, every
  example the path yields has \<open>scale = 1\<close>, carries the extrinsics of its views as they
  were computed, and has the near and far bounds of the dataset on every view.
\<close>

theorem zst_path_never_rescaled:
  assumes "process_zst_scene self sample get_fov_deg example0 e k = Yield (ex, scale)"
  shows "scale = 1
       \<and> extrinsics (context_views ex) = map (\<lambda>i. map (map Some) (e ! i)) [9, 15, 34, 45]
       \<and> near_v (context_views ex) = replicate 4 (Some (near self))
       \<and> far_v (context_views ex) = replicate 4 (Some (far self))
       \<and> (\<exists>c t. sample (key example0) e k = Some (c, t)
            \<and> extrinsics (target_views ex) = map (\<lambda>i. map (map Some) (e ! i)) t
            \<and> near_v (target_views ex) = replicate (length t) (Some (near self))
            \<and> far_v (target_views ex) = replicate (length t) (Some (far self)))"
proof -
  from assms obtain c t where
    s: "sample (key example0) e k = Some (c, t)" and
    a: "assemble self (key example0) e k [9, 15, 34, 45] t
             (map (\<lambda>i. images example0 ! i) [9, 15, 34, 45]) (map (\<lambda>i. images example0 ! i) t)
             (Some (map (\<lambda>i. depths example0 ! i) [9, 15, 34, 45]))
             (Some (map (\<lambda>i. depths example0 ! i) t))
             (Some (map (\<lambda>i. positions example0 ! i) [9, 15, 34, 45]))
             (Some (map (\<lambda>i. positions example0 ! i) t)) = Yield (ex, scale)"
    unfolding process_zst_scene_Yield by blast
  have four: "length [9, 15, 34, 45 :: nat] \<noteq> 2 \<or> \<not> make_baseline_1 (cfg self)" by simp
  from a obtain e1 where
    r: "resize_world (cfg self) e [9, 15, 34, 45] = Yield (scale, e1)"
    and t: "list_all (\<lambda>i. i < length e1) t"
    and ex: "ex = \<lparr>context_views =
                   views_of self (if baseline_scale_bounds (cfg self) then scale else 1)
                     e1 k [9, 15, 34, 45] (map (\<lambda>i. images example0 ! i) [9, 15, 34, 45])
                     (Some (map (\<lambda>i. depths example0 ! i) [9, 15, 34, 45]))
                     (Some (map (\<lambda>i. positions example0 ! i) [9, 15, 34, 45])),
                 target_views =
                   views_of self (if baseline_scale_bounds (cfg self) then scale else 1)
                     e1 k t (map (\<lambda>i. images example0 ! i) t)
                     (Some (map (\<lambda>i. depths example0 ! i) t))
                     (Some (map (\<lambda>i. positions example0 ! i) t)),
                 scene = key example0\<rparr>"
    unfolding assemble_Yield by blast
  from r have sc: "scale = 1" and e1: "e1 = map (map (map Some)) e"
    and c4: "list_all (\<lambda>i. i < length e) [9, 15, 34, 45]"
    unfolding resize_world_not_two [OF four] by simp_all
  have t': "list_all (\<lambda>i. i < length e) t" using t by (simp add: e1)
  have m: "map (\<lambda>i. map (map (map Some)) e ! i) t = map (\<lambda>i. map (map Some) (e ! i)) t"
    using t' by (simp add: list_all_iff)
  have m4: "map (\<lambda>i. map (map (map Some)) e ! i) [9, 15, 34, 45]
             = map (\<lambda>i. map (map Some) (e ! i)) [9, 15, 34, 45]"
    using c4 by (simp add: list_all_iff)
  have "extrinsics (context_views ex) = map (\<lambda>i. map (map Some) (e ! i)) [9, 15, 34, 45]"
    unfolding ex e1 views_of_def using m4 by simp
  moreover have "extrinsics (target_views ex) = map (\<lambda>i. map (map Some) (e ! i)) t"
    unfolding ex e1 views_of_def using m by simp
  moreover have "near_v (context_views ex) = replicate 4 (Some (near self))"
     "far_v (context_views ex) = replicate 4 (Some (far self))"
     "near_v (target_views ex) = replicate (length t) (Some (near self))"
     "far_v (target_views ex) = replicate (length t) (Some (far self))"
    by (simp_all add: ex views_of_def sc fdiv_1 replicate4)
  ultimately show ?thesis using sc s by simp
qed

lemma list_all_replicate: "list_all P (replicate n x) \<longleftrightarrow> n = 0 \<or> P x"
  by (induction n) auto

lemma list_ex_replicate: "list_ex P (replicate n x) \<longleftrightarrow> n \<noteq> 0 \<and> P x"
  by (induction n) auto

lemma is_4x4_eye: "is_4x4 (eye 4)"
  by (simp add: is_4x4_def eye_def upt_rec)

lemma zst_yields:
  "(case process_zst_scene (test_dataset []) example_sampler (example_fov 90) example_new_chunk
           (replicate 46 (eye 4)) (replicate 46 zst_intrinsics)
    of Yield r \<Rightarrow> True | _ \<Rightarrow> False)"
  by (simp add: process_zst_scene_def example_sampler_def example_fov_def example_new_chunk_def
        too_wide_def list_ex_replicate test_dataset_def example_cfg_def gather_cat_def gather_def
        assemble_def resize_world_def list_all_replicate is_4x4_eye make_views_def)

theorem zst_path_never_rescaled_witness:
  "\<exists>ex. process_zst_scene (test_dataset []) example_sampler (example_fov 90) example_new_chunk
           (replicate 46 (eye 4)) (replicate 46 zst_intrinsics) = Yield (ex, 1)
       \<and> make_baseline_1 (cfg (test_dataset [])) \<and> baseline_scale_bounds (cfg (test_dataset []))
       \<and> extrinsics (context_views ex)
           = [map (map Some) (eye 4), map (map Some) (eye 4),
              map (map Some) (eye 4), map (map Some) (eye 4)]
       \<and> near_v (context_views ex) = [Some (1 / 10), Some (1 / 10), Some (1 / 10), Some (1 / 10)]
       \<and> far_v (target_views ex) = [Some 1000, Some 1000]"
proof -
  from zst_yields obtain ex sc where
    y: "process_zst_scene (test_dataset []) example_sampler (example_fov 90) example_new_chunk
           (replicate 46 (eye 4)) (replicate 46 zst_intrinsics) = Yield (ex, sc)"
    by (auto split: step.splits)
  from zst_path_never_rescaled [OF y] y show ?thesis
    by (auto simp: test_dataset_def example_cfg_def example_sampler_def replicate4)
qed

lemma inverse_shift_x: "inverse_m (shift_x t) = Inr (shift_x (- t))"
  by (simp add: shift_x_def inverse_m_def det4 adjugate4)

lemma convert_example_torch:
  "convert_poses (cameras example_torch)
     = Inr ([shift_x 0, shift_x 2, shift_x 2], [half_k, half_k, half_k])"
proof -
  have l: "length pose_a = 18" "length pose_b = 18" by (simp_all add: pose_a_def pose_b_def)
  have w: "w2c_of pose_a = shift_x 0" "w2c_of pose_b = shift_x (- 2)"
    unfolding w2c_of_rows [OF l(1)] w2c_of_rows [OF l(2)]
    by (simp_all add: pose_a_def pose_b_def shift_x_def)
  have k: "intrinsics_of pose_a = half_k" "intrinsics_of pose_b = half_k"
    by (simp_all add: intrinsics_of_def pose_a_def pose_b_def half_k_def)
  show ?thesis
    using inverse_shift_x [of 0] inverse_shift_x [of "- 2"]
    by (simp add: convert_poses_def example_torch_def l w k)
qed


lemma process_zst_scene_Continue_fov:
  assumes "sample (key example0) e k = Some (c, t)" "get_fov_deg k = Inr fovs"
    "too_wide (max_fov (cfg self)) fovs"
  shows "process_zst_scene self sample get_fov_deg example0 e k = Continue"
  using assms by (simp add: process_zst_scene_def)

lemma process_torch_scene_Continue_fov:
  assumes "convert_poses (cameras example0) = Inr (e, k)"
    "sample (scene_name (test_times_per_scene (cfg self)) (t_key example0) run_idx) e k
       = Some (c, t)"
    "get_fov_deg k = Inr fovs" "too_wide (max_fov (cfg self)) fovs"
  shows "process_torch_scene self sample get_fov_deg decode shape_of example0 run_idx = Continue"
  using assms by (simp add: process_torch_scene_def)

lemma too_wide_iff: "too_wide cap fovs \<longleftrightarrow> (\<exists>row \<in> set fovs. \<exists>v \<in> set row. v > cap)"
  by (auto simp: too_wide_def list_ex_iff)

text \<open>
  Claim C6 (field-of-view rejection). In both paths, once the sampler has returned, the
  fields of view in degrees of the frames of the scene (the retained frames among them)
  are compared with \<open>max_fov\<close>; if one of them is larger, the loop body executes
  \<open>continue\<close>: nothing is yielded for the scene, no exception is raised, and the pass
  goes on with what follows. A frame with 170 degrees under a cap of 150 is such a case
  (see the example after the theorem).
\<close>

theorem fov_rejection:
  assumes "get_fov_deg k = Inr fovs" and "row \<in> set fovs" and "v \<in> set row"
    and "v > max_fov (cfg self)"
  shows "(sample (key example0) k0 k = Some (c, t) \<longrightarrow>
            process_zst_scene self sample get_fov_deg example0 k0 k = Continue
          \<and> run (process_zst_scene self sample get_fov_deg example0 k0 k # rest) = run rest)
       \<and> (convert_poses (cameras example1) = Inr (e, k)
          \<and> sample (scene_name (test_times_per_scene (cfg self)) (t_key example1) run_idx) e k
               = Some (c, t) \<longrightarrow>
            process_torch_scene self sample get_fov_deg decode shape_of example1 run_idx = Continue
          \<and> run (process_torch_scene self sample get_fov_deg decode shape_of example1 run_idx
                   # rest') = run rest')"
proof -
  have w: "too_wide (max_fov (cfg self)) fovs"
    using assms(2-4) unfolding too_wide_iff by blast
  have z: "process_zst_scene self sample get_fov_deg example0 k0 k = Continue"
    if "sample (key example0) k0 k = Some (c, t)"
    using that assms(1) w by (rule process_zst_scene_Continue_fov)
  have p: "process_torch_scene self sample get_fov_deg decode shape_of example1 run_idx = Continue"
    if "convert_poses (cameras example1) = Inr (e, k)"
       "sample (scene_name (test_times_per_scene (cfg self)) (t_key example1) run_idx) e k
               = Some (c, t)"
    using that assms(1) w by (rule process_torch_scene_Continue_fov)
  show ?thesis using z p by simp
qed

theorem fov_rejection_witness:
  "example_fov 170 (replicate 46 zst_intrinsics) = Inr (replicate 46 [170, 170])
   \<and> [170, 170] \<in> set (replicate 46 [170, 170 :: real]) \<and> (170 :: real) \<in> set [170, 170]
   \<and> 170 > max_fov (cfg (cap_dataset 150))
   \<and> example_sampler (key example_new_chunk) (replicate 46 (eye 4)) (replicate 46 zst_intrinsics)
        = Some ([0, 1], [2, 3])
   \<and> process_zst_scene (cap_dataset 150) example_sampler (example_fov 170) example_new_chunk
        (replicate 46 (eye 4)) (replicate 46 zst_intrinsics) = Continue
   \<and> run [process_zst_scene (cap_dataset 150) example_sampler (example_fov 170) example_new_chunk
        (replicate 46 (eye 4)) (replicate 46 zst_intrinsics)] = ([], None)
   \<and> convert_poses (cameras example_torch)
        = Inr ([shift_x 0, shift_x 2, shift_x 2], [half_k, half_k, half_k])
   \<and> torch_sampler
        (scene_name (test_times_per_scene (cfg (cap_dataset 150))) (t_key example_torch) 0)
        [shift_x 0, shift_x 2, shift_x 2] [half_k, half_k, half_k] = Some ([1, 0], [2])
   \<and> example_fov 170 [half_k, half_k, half_k] = Inr [[170, 170], [170, 170], [170, 170]]
   \<and> process_torch_scene (cap_dataset 150) torch_sampler (example_fov 170) Some
        (\<lambda>i. [3, 360, 640]) example_torch 0
       = (Continue :: ((unit, unit, unit) example \<times> real) step)"
proof -
  have f: "example_fov 170 (replicate 46 zst_intrinsics) = Inr (replicate 46 [170, 170])"
    by (simp add: example_fov_def)
  have r: "[170, 170] \<in> set (replicate 46 [170, 170 :: real])" by simp
  have v: "(170 :: real) \<in> set [170, 170]" by simp
  have m: "170 > max_fov (cfg (cap_dataset 150))" by (simp add: cap_dataset_def example_cfg_def)
  have s: "example_sampler (key example_new_chunk) (replicate 46 (eye 4))
             (replicate 46 zst_intrinsics) = Some ([0, 1], [2, 3])"
    by (simp add: example_sampler_def)
  from fov_rejection [where get_fov_deg = "example_fov 170" and k = "replicate 46 zst_intrinsics"
             and fovs = "replicate 46 [170, 170]" and row = "[170, 170]" and v = 170
             and self = "cap_dataset 150" and sample = example_sampler
             and ?example0.0 = example_new_chunk and ?k0.0 = "replicate 46 (eye 4)"
             and c = "[0, 1]" and t = "[2, 3]" and rest = "[]", OF f r v m, THEN conjunct1]
       s f r v m
  have z: "process_zst_scene (cap_dataset 150) example_sampler (example_fov 170)
        example_new_chunk (replicate 46 (eye 4)) (replicate 46 zst_intrinsics) = Continue
   \<and> run [process_zst_scene (cap_dataset 150) example_sampler (example_fov 170) example_new_chunk
        (replicate 46 (eye 4)) (replicate 46 zst_intrinsics)] = ([], None)"
    by simp
  have f': "example_fov 170 [half_k, half_k, half_k] = Inr [[170, 170], [170, 170], [170, 170]]"
    by (simp add: example_fov_def)
  have r': "[170, 170] \<in> set [[170, 170], [170, 170], [170, 170 :: real]]" by simp
  have s': "torch_sampler
        (scene_name (test_times_per_scene (cfg (cap_dataset 150))) (t_key example_torch) 0)
        [shift_x 0, shift_x 2, shift_x 2] [half_k, half_k, half_k] = Some ([1, 0], [2])"
    by (simp add: torch_sampler_def)
  from fov_rejection [where get_fov_deg = "example_fov 170" and k = "[half_k, half_k, half_k]"
             and fovs = "[[170, 170], [170, 170], [170, 170]]" and row = "[170, 170]" and v = 170
             and self = "cap_dataset 150" and sample = torch_sampler
             and ?example1.0 = example_torch and e = "[shift_x 0, shift_x 2, shift_x 2]"
             and c = "[1, 0]" and t = "[2]" and run_idx = 0 and decode = Some
             and shape_of = "\<lambda>i. [3, 360, 640]" and rest' = "[]",
             OF f' r' v m, THEN conjunct2]
       convert_example_torch s'
  have p: "process_torch_scene (cap_dataset 150) torch_sampler (example_fov 170) Some
        (\<lambda>i. [3, 360, 640]) example_torch 0
       = (Continue :: ((unit, unit, unit) example \<times> real) step)"
    by simp
  from z p f r v m s f' s' convert_example_torch show ?thesis by simp
qed




subsection \<open>Rescaling the world to a baseline of 1\<close>










subsection \<open>Rescaling the radiance images\<close>

lemma chop_replicate:
  assumes "0 < n"
  shows "chop n (replicate l x) = replicate (l div n) (replicate n x)"
proof -
  have "take n (drop (k * n) (replicate l x)) = replicate n x" if "k < l div n" for k
  proof -
    have "(k + 1) * n \<le> l div n * n" using that by (intro mult_le_mono1) simp
    also have "\<dots> \<le> l" by simp
    finally have "n \<le> l - k * n" by simp
    then show ?thesis by (simp add: min_def)
  qed
  then have "map (\<lambda>k. take n (drop (k * n) (replicate l x))) [0..<l div n]
           = map (\<lambda>k. replicate n x) [0..<l div n]"
    by (intro map_cong) simp_all
  then show ?thesis by (simp add: chop_def map_replicate_const)
qed

lemma chop_two:
  assumes "0 < n"
  shows "chop n (replicate n x @ replicate n y) = [replicate n x, replicate n y]"
proof -
  have d: "(n + n) div n = 2" using assms by simp
  have u: "[0..<2] = [0, 1]" by (simp add: upt_rec)
  show ?thesis by (simp add: chop_def d u)
qed

lemma length_chop_elem:
  assumes "ys \<in> set (chop n xs)"
  shows "length ys = n"
proof -
  from assms obtain k where k: "k < length xs div n" "ys = take n (drop (k * n) xs)"
    by (auto simp: chop_def)
  have "(k + 1) * n \<le> length xs div n * n" using k(1) by (intro mult_le_mono1) simp
  also have "\<dots> \<le> length xs" by simp
  finally have "n \<le> length xs - k * n" by simp
  then show ?thesis by (simp add: k(2))
qed

lemma length_chop: "length (chop n xs) = length xs div n"
  by (simp add: chop_def)

lemma channel_max_Max:
  "ps \<noteq> [] \<Longrightarrow> channel_max k ps = Max ((\<lambda>p. p ! k) ` set ps)"
proof -
  assume "ps \<noteq> []"
  then obtain q qs where ps: "ps = q # qs" by (cases ps) auto
  have "Max ((\<lambda>p. p ! k) ` set ps) = Max (set (map (\<lambda>p. p ! k) (q # qs)))"
    by (simp add: ps)
  also have "\<dots> = fold max (map (\<lambda>p. p ! k) qs) (q ! k)"
    unfolding list.map by (rule Max.set_eq_fold)
  finally show ?thesis by (simp add: channel_max_def ps)
qed

lemma reshape_tiles_shape:
  assumes "reshape_tiles c xs = Inr frames" "0 < c"
    and "frame \<in> set frames" "row \<in> set frame" "p \<in> set row"
  shows "length frame = 256" "length row = 256" "length p = c"
proof -
  from assms(1) have f: "frames = map (\<lambda>frame. map (chop c) (chop (256 * c) frame))
                                    (chop (256 * 256 * c) xs)"
    by (simp add: reshape_tiles_def split: if_splits)
  from assms(3) obtain raw where raw: "raw \<in> set (chop (256 * 256 * c) xs)"
    "frame = map (chop c) (chop (256 * c) raw)" unfolding f by auto
  have lr: "length raw = 256 * 256 * c" using raw(1) by (rule length_chop_elem)
  have d1: "(256 * 256 * c) div (256 * c) = 256" using assms(2) by simp
  have d2: "(256 * c) div c = 256" using assms(2) by simp
  show "length frame = 256" by (simp only: raw(2) length_map length_chop lr d1)
  from assms(4) obtain rr where rr: "rr \<in> set (chop (256 * c) raw)" "row = chop c rr"
    unfolding raw(2) by auto
  have "length rr = 256 * c" using rr(1) by (rule length_chop_elem)
  then show "length row = 256" by (simp only: rr(2) length_chop d2)
  show "length p = c" using assms(5) unfolding rr(2) by (rule length_chop_elem)
qed

lemma pixels_map: "pixels (map (map (map g)) imgs) = map g (pixels imgs)"
  by (simp add: pixels_def map_concat)

lemma in_pixels:
  "p \<in> set (pixels imgs) \<longleftrightarrow> (\<exists>frame \<in> set imgs. \<exists>row \<in> set frame. p \<in> set row)"
  by (auto simp: pixels_def)

lemma pixels_nonempty:
  assumes "reshape_tiles 3 rad = Inr imgs" "imgs \<noteq> []"
  shows "pixels imgs \<noteq> []"
proof -
  from assms(2) obtain frame where f: "frame \<in> set imgs" by (cases imgs) auto
  have "length frame = 256" if "row \<in> set frame" "p \<in> set row" for row p
    using reshape_tiles_shape(1) [OF assms(1) _ f that] by simp
  have lf: "frame \<noteq> []"
  proof
    assume "frame = []"
    with assms(1) f show False
      by (auto simp: reshape_tiles_def chop_def split: if_splits)
  qed
  then obtain row where r: "row \<in> set frame" by (cases frame) auto
  have "row \<noteq> []"
  proof
    assume e: "row = []"
    from assms(1) f obtain raw where "frame = map (chop 3) (chop (256 * 3) raw)"
      by (auto simp: reshape_tiles_def split: if_splits)
    with r obtain rr where "rr \<in> set (chop (256 * 3) raw)" "row = chop 3 rr" by auto
    then have "length rr = 256 * 3" "length row = length rr div 3"
      by (simp_all add: length_chop_elem length_chop)
    with e show False by simp
  qed
  then obtain p where "p \<in> set row" by (cases row) auto
  with f r have "p \<in> set (pixels imgs)" unfolding in_pixels by blast
  then show ?thesis by auto
qed

lemma pixel_length:
  assumes "reshape_tiles 3 rad = Inr imgs" "p \<in> set (pixels imgs)"
  shows "length p = 3"
  using assms(2) reshape_tiles_shape(3) [OF assms(1)] unfolding in_pixels by auto

lemma list3_explicit: "length p = 3 \<Longrightarrow> \<exists>a b c. p = [a, b, c]"
  by (auto simp: eval_nat_numeral length_Suc_conv)

lemma normalize_pixel:
  assumes "length p = 3"
  shows "map (\<lambda>(k, x). fdiv x (m k)) (enumerate 0 p)
           = [fdiv (p ! 0) (m 0), fdiv (p ! 1) (m 1), fdiv (p ! 2) (m 2)]"
proof -
  from list3_explicit [OF assms] obtain a b c where p: "p = [a, b, c]" by blast
  show ?thesis by (simp add: p eval_nat_numeral)
qed

lemma normalize_images_formula:
  assumes "pixels imgs \<noteq> []" "\<forall>p \<in> set (pixels imgs). length p = 3"
  shows "normalize_images imgs =
           Inr (map (map (map (\<lambda>p. [fdiv (p ! 0) (channel_max 0 (pixels imgs)),
                                      fdiv (p ! 1) (channel_max 1 (pixels imgs)),
                                      fdiv (p ! 2) (channel_max 2 (pixels imgs))]))) imgs)"
proof -
  have "map (map (map (\<lambda>p. map (\<lambda>(k, x). fdiv x (channel_max k (pixels imgs)))
                                       (enumerate 0 p)))) imgs
      = map (map (map (\<lambda>p. [fdiv (p ! 0) (channel_max 0 (pixels imgs)),
                                      fdiv (p ! 1) (channel_max 1 (pixels imgs)),
                                      fdiv (p ! 2) (channel_max 2 (pixels imgs))]))) imgs"
  proof (intro map_cong refl)
    fix frame row p
    assume "frame \<in> set imgs" "row \<in> set frame" "p \<in> set row"
    then have "p \<in> set (pixels imgs)" unfolding in_pixels by blast
    then have "length p = 3" using assms(2) by blast
    then show "map (\<lambda>(k, x). fdiv x (channel_max k (pixels imgs))) (enumerate 0 p)
             = [fdiv (p ! 0) (channel_max 0 (pixels imgs)),
                fdiv (p ! 1) (channel_max 1 (pixels imgs)),
                fdiv (p ! 2) (channel_max 2 (pixels imgs))]"
      by (rule normalize_pixel)
  qed
  then show ?thesis using assms(1) by (simp add: normalize_images_def)
qed

lemma nth3: "k < 3 \<Longrightarrow> [f 0, f 1, f 2] ! k = f k"
proof -
  assume "k < 3"
  then consider "k = 0" | "k = 1" | "k = 2" by linarith
  then show ?thesis by cases (simp_all add: eval_nat_numeral)
qed

lemma rescaled_max:
  assumes "ps \<noteq> []" "k < 3" "0 < channel_max k ps"
  shows "channel_max_fl k
           (map (\<lambda>p. [fdiv (p ! 0) (channel_max 0 ps), fdiv (p ! 1) (channel_max 1 ps),
                       fdiv (p ! 2) (channel_max 2 ps)]) ps) = Some 1"
proof -
  let ?g = "\<lambda>p. [fdiv (p ! 0) (channel_max 0 ps), fdiv (p ! 1) (channel_max 1 ps),
                   fdiv (p ! 2) (channel_max 2 ps)]"
  let ?m = "channel_max k ps"
  have g: "?g p ! k = Some (p ! k / ?m)" for p
    using nth3 [OF assms(2), of "\<lambda>k. fdiv (p ! k) (channel_max k ps)"] assms(3)
    by (simp add: fdiv_def)
  have no: "\<not> list_ex (\<lambda>q. q ! k = None) (map ?g ps)"
    unfolding list_ex_iff using g by auto
  have the: "map the (?g p) ! k = p ! k / ?m" for p
  proof -
    have "map the (?g p) ! k = the (?g p ! k)" using assms(2) by (intro nth_map) simp
    then show ?thesis by (simp only: g option.sel)
  qed
  have ne: "map (map the) (map ?g ps) \<noteq> []" using assms(1) by simp
  have "channel_max k (map (map the) (map ?g ps))
          = Max ((\<lambda>q. q ! k) ` set (map (map the) (map ?g ps)))"
    by (rule channel_max_Max [OF ne])
  also have "(\<lambda>q. q ! k) ` set (map (map the) (map ?g ps))
              = (\<lambda>x. x / ?m) ` ((\<lambda>p. p ! k) ` set ps)"
    using the by (auto simp: image_iff)
  also have "Max \<dots> = Max ((\<lambda>p. p ! k) ` set ps) / ?m"
  proof (rule mono_Max_commute [symmetric])
    show "mono (\<lambda>x. x / ?m)" using assms(3) by (auto simp: mono_def divide_right_mono)
    show "finite ((\<lambda>p. p ! k) ` set ps)" by simp
    show "(\<lambda>p. p ! k) ` set ps \<noteq> {}" using assms(1) by simp
  qed
  also have "\<dots> = 1" using assms(3) by (simp add: channel_max_Max [OF assms(1)])
  finally show ?thesis using no by (simp add: channel_max_fl_def)
qed

lemma replicate3: "replicate 3 x = [x, x, x]"
  by (simp add: eval_nat_numeral)

lemma chop_row: "chop 3 (replicate 768 x) = replicate 256 [x, x, x]"
  by (simp add: chop_replicate replicate3)

lemma chop_frame:
  "map (chop 3) (chop (256 * 3) (replicate 196608 x)) = replicate 256 (replicate 256 [x, x, x])"
  by (simp add: chop_replicate chop_row)

lemma reshape_one:
  "reshape_tiles 3 (replicate 196608 x) = Inr [replicate 256 (replicate 256 [x, x, x])]"
proof -
  have "chop (256 * 256 * 3) (replicate 196608 x) = replicate 1 (replicate 196608 x)"
    by (simp add: chop_replicate)
  then have "chop (256 * 256 * 3) (replicate 196608 x) = [replicate 196608 x]"
    by (simp)
  then show ?thesis using chop_frame [of x]
    by (simp add: reshape_tiles_def)
qed

lemma reshape_two:
  "reshape_tiles 3 (replicate 196608 x @ replicate 196608 y)
     = Inr [replicate 256 (replicate 256 [x, x, x]), replicate 256 (replicate 256 [y, y, y])]"
proof -
  have "chop (256 * 256 * 3) (replicate 196608 x @ replicate 196608 y)
          = [replicate 196608 x, replicate 196608 y]"
    using chop_two [of 196608 x y] by (simp)
  then show ?thesis using chop_frame [of x] chop_frame [of y]
    by (simp add: reshape_tiles_def)
qed

lemma concat_replicate: "concat (replicate m (replicate n x)) = replicate (m * n) x"
  by (induction m) (simp_all add: replicate_add)

lemma pixels_one: "pixels [replicate 256 (replicate 256 p)] = replicate 65536 p"
  by (simp add: pixels_def concat_replicate)

lemma pixels_two:
  "pixels [replicate 256 (replicate 256 p), replicate 256 (replicate 256 q)]
     = replicate 65536 p @ replicate 65536 q"
  by (simp add: pixels_def concat_replicate)

lemma channel_max_one: "channel_max k (replicate 65536 p) = p ! k"
  by (subst channel_max_Max) (simp_all)

lemma channel_max_two:
  "channel_max k (replicate 65536 p @ replicate 65536 q) = max (p ! k) (q ! k)"
  by (subst channel_max_Max) (simp_all)

lemma nth_abc: "[a, b, c] ! 0 = a" "[a, b, c] ! 1 = b" "[a, b, c] ! 2 = c"
  by simp_all

lemma normalize_one:
  "normalize_images [replicate 256 (replicate 256 [a, b, c])]
     = Inr [replicate 256 (replicate 256 [fdiv a a, fdiv b b, fdiv c c])]"
proof -
  let ?imgs = "[replicate 256 (replicate 256 [a, b, c])]"
  have px: "pixels ?imgs = replicate 65536 [a, b, c]" by (rule pixels_one)
  have ne: "pixels ?imgs \<noteq> []" unfolding px by simp
  have l3: "\<forall>p \<in> set (pixels ?imgs). length p = 3"
    unfolding px by simp
  have m: "channel_max 0 (pixels ?imgs) = a" "channel_max 1 (pixels ?imgs) = b"
    "channel_max 2 (pixels ?imgs) = c"
    unfolding px channel_max_one by (rule nth_abc)+
  note f = normalize_images_formula [of ?imgs, OF ne l3]
  show ?thesis
    by (subst f) (simp add: m m [unfolded One_nat_def])
qed

lemma normalize_two:
  "normalize_images [replicate 256 (replicate 256 [a, b, c]),
                     replicate 256 (replicate 256 [a', b', c'])]
     = Inr [replicate 256 (replicate 256
              [fdiv a (max a a'), fdiv b (max b b'), fdiv c (max c c')]),
            replicate 256 (replicate 256
              [fdiv a' (max a a'), fdiv b' (max b b'), fdiv c' (max c c')])]"
proof -
  let ?imgs = "[replicate 256 (replicate 256 [a, b, c]),
                replicate 256 (replicate 256 [a', b', c'])]"
  have px: "pixels ?imgs = replicate 65536 [a, b, c] @ replicate 65536 [a', b', c']"
    by (rule pixels_two)
  have ne: "pixels ?imgs \<noteq> []" unfolding px by simp
  have l3: "\<forall>p \<in> set (pixels ?imgs). length p = 3"
    unfolding px by auto
  have m: "channel_max 0 (pixels ?imgs) = max a a'" "channel_max 1 (pixels ?imgs) = max b b'"
    "channel_max 2 (pixels ?imgs) = max c c'"
    unfolding px channel_max_two by (simp_all only: nth_abc)
  note f = normalize_images_formula [of ?imgs, OF ne l3]
  show ?thesis
    by (subst f) (simp add: m m [unfolded One_nat_def])
qed

text \<open>
  Claim C9 as stated: after the rescaling the maximum of each channel is 1. It fails for a
  channel that is zero in the whole chunk (here a black frame): the divisor is 0, every
  value of the channel is \<open>0 / 0\<close>, and so is its maximum.
\<close>

theorem radiance_rescaling_black_counterexample:
  "bind (reshape_tiles 3 (replicate 196608 0)) normalize_images
     = Inr [replicate 256 (replicate 256 [None, None, None])]
 \<and> channel_max_fl 0 (pixels [replicate 256 (replicate 256 [None, None, None :: fl])])
     \<noteq> Some 1"
proof -
  have 1: "bind (reshape_tiles 3 (replicate 196608 0)) normalize_images
     = Inr [replicate 256 (replicate 256 [None, None, None])]"
    unfolding reshape_one bind.simps normalize_one by (simp add: fdiv_def)
  have 2: "channel_max_fl 0 (pixels [replicate 256 (replicate 256 [None, None, None :: fl])])
     = None"
    unfolding pixels_one by (simp add: channel_max_fl_def list_ex_iff)
  from 1 2 show ?thesis by simp
qed

text \<open>
  Claim C9, amended. For the image tensor of a chunk with at least one frame, line 132
  divides every value by the maximum of its colour channel over all pixels of all frames
  of the chunk. A channel whose maximum is positive has maximum 1 afterwards. The values
  of a frame depend on the other frames of the chunk: a frame of ones alone is rescaled to
  ones, and to halves when the chunk also holds a frame of twos.
\<close>

theorem radiance_rescaling:
  assumes "reshape_tiles 3 rad = Inr imgs" and "imgs \<noteq> []"
  shows "normalize_images imgs =
           Inr (map (map (map (\<lambda>p. [fdiv (p ! 0) (channel_max 0 (pixels imgs)),
                                      fdiv (p ! 1) (channel_max 1 (pixels imgs)),
                                      fdiv (p ! 2) (channel_max 2 (pixels imgs))]))) imgs)
       \<and> (\<forall>k. channel_max k (pixels imgs) = Max ((\<lambda>p. p ! k) ` set (pixels imgs)))
       \<and> (\<forall>k<3. 0 < channel_max k (pixels imgs) \<longrightarrow>
             (\<exists>out. normalize_images imgs = Inr out \<and> channel_max_fl k (pixels out) = Some 1))
       \<and> bind (reshape_tiles 3 (replicate 196608 1)) normalize_images
           = Inr [replicate 256 (replicate 256 [Some 1, Some 1, Some 1])]
       \<and> bind (reshape_tiles 3 (replicate 196608 1 @ replicate 196608 2)) normalize_images
           = Inr [replicate 256 (replicate 256 [Some (1 / 2), Some (1 / 2), Some (1 / 2)]),
                  replicate 256 (replicate 256 [Some 1, Some 1, Some 1])]"
proof -
  have ne: "pixels imgs \<noteq> []" using assms by (rule pixels_nonempty)
  have l3: "\<forall>p \<in> set (pixels imgs). length p = 3"
    using pixel_length [OF assms(1)] by blast
  note f = normalize_images_formula [OF ne l3]
  have 2: "channel_max k (pixels imgs) = Max ((\<lambda>p. p ! k) ` set (pixels imgs))" for k
    using ne by (rule channel_max_Max)
  have 3: "\<exists>out. normalize_images imgs = Inr out \<and> channel_max_fl k (pixels out) = Some 1"
    if "k < 3" "0 < channel_max k (pixels imgs)" for k
  proof (intro exI conjI)
    show "normalize_images imgs =
           Inr (map (map (map (\<lambda>p. [fdiv (p ! 0) (channel_max 0 (pixels imgs)),
                                      fdiv (p ! 1) (channel_max 1 (pixels imgs)),
                                      fdiv (p ! 2) (channel_max 2 (pixels imgs))]))) imgs)"
      by (rule f)
    show "channel_max_fl k (pixels
           (map (map (map (\<lambda>p. [fdiv (p ! 0) (channel_max 0 (pixels imgs)),
                                      fdiv (p ! 1) (channel_max 1 (pixels imgs)),
                                      fdiv (p ! 2) (channel_max 2 (pixels imgs))]))) imgs))
          = Some 1"
      unfolding pixels_map by (rule rescaled_max [OF ne that])
  qed
  have 4: "bind (reshape_tiles 3 (replicate 196608 1)) normalize_images
           = Inr [replicate 256 (replicate 256 [Some 1, Some 1, Some 1])]"
    unfolding reshape_one bind.simps normalize_one by (simp add: fdiv_def)
  have 5: "bind (reshape_tiles 3 (replicate 196608 1 @ replicate 196608 2)) normalize_images
           = Inr [replicate 256 (replicate 256 [Some (1 / 2), Some (1 / 2), Some (1 / 2)]),
                  replicate 256 (replicate 256 [Some 1, Some 1, Some 1])]"
    unfolding reshape_two bind.simps normalize_two by (simp add: fdiv_def)
  from f 2 3 4 5 show ?thesis by blast
qed

theorem radiance_rescaling_witness:
  "reshape_tiles 3 (replicate 196608 2) = Inr [replicate 256 (replicate 256 [2, 2, 2])]
 \<and> [replicate 256 (replicate 256 [2, 2, 2 :: real])] \<noteq> []
 \<and> (0 :: nat) < 3
 \<and> 0 < channel_max 0 (pixels [replicate 256 (replicate 256 [2, 2, 2])])
 \<and> normalize_images [replicate 256 (replicate 256 [2, 2, 2])]
     = Inr [replicate 256 (replicate 256 [Some 1, Some 1, Some 1])]
 \<and> channel_max_fl 0 (pixels [replicate 256 (replicate 256 [Some 1, Some 1, Some 1])]) = Some 1"
proof -
  have r: "reshape_tiles 3 (replicate 196608 2) = Inr [replicate 256 (replicate 256 [2, 2, 2])]"
    by (rule reshape_one)
  have ne: "[replicate 256 (replicate 256 [2, 2, 2 :: real])] \<noteq> []" by simp
  have m: "0 < channel_max 0 (pixels [replicate 256 (replicate 256 [2, 2, 2])])"
    unfolding pixels_one channel_max_one by simp
  have n: "normalize_images [replicate 256 (replicate 256 [2, 2, 2])]
     = Inr [replicate 256 (replicate 256 [Some 1, Some 1, Some 1])]"
    unfolding normalize_one by (simp add: fdiv_def)
  have k: "(0 :: nat) < 3" by simp
  from radiance_rescaling [OF r ne, THEN conjunct2, THEN conjunct2, THEN conjunct1, rule_format, OF k m]
  have "channel_max_fl 0 (pixels [replicate 256 (replicate 256 [Some 1, Some 1, Some 1])]) = Some 1"
    unfolding n by simp
  with r ne m n k show ?thesis by blast
qed

subsection \<open>The worker filter partitions the chunk list\<close>

lemma sum_filter_mset_fibres:
  "finite A \<Longrightarrow>
     (\<Sum>i\<in>A. image_mset h (filter_mset (\<lambda>x. f x = i) M)) =
     image_mset h (filter_mset (\<lambda>x. f x \<in> A) M)"
proof (induction A rule: finite_induct)
  case empty
  then show ?case by simp
next
  case (insert a A)
  have "filter_mset (\<lambda>x. f x = a) M + filter_mset (\<lambda>x. f x \<in> A) M
        = filter_mset (\<lambda>x. f x \<in> insert a A) M"
    using insert.hyps(2) by (induction M) auto
  then have "image_mset h (filter_mset (\<lambda>x. f x = a) M)
        + image_mset h (filter_mset (\<lambda>x. f x \<in> A) M)
        = image_mset h (filter_mset (\<lambda>x. f x \<in> insert a A) M)"
    by (metis image_mset_union)
  with insert show ?case by simp
qed

lemma mset_worker_chunks:
  "mset (worker_chunks nw i xs) =
     image_mset snd (filter_mset (\<lambda>p. fst p mod nw = i) (mset (enumerate 0 xs)))"
  by (simp add: worker_chunks_def worker_entries_def case_prod_unfold)

lemma sum_worker_chunks:
  assumes "0 < nw"
  shows "(\<Sum>i\<in>{..<nw}. mset (worker_chunks nw i xs)) = mset xs"
proof -
  let ?M = "mset (enumerate 0 xs)"
  have "(\<Sum>i\<in>{..<nw}. mset (worker_chunks nw i xs))
        = image_mset snd (filter_mset (\<lambda>p. fst p mod nw \<in> {..<nw}) ?M)"
    unfolding mset_worker_chunks by (rule sum_filter_mset_fibres) simp
  also have "\<dots> = image_mset snd ?M" using assms by simp
  also have "\<dots> = mset xs"
    by (metis map_snd_enumerate mset_map)
  finally show ?thesis .
qed

lemma worker_entries_disjoint:
  "i \<noteq> j \<Longrightarrow> set (worker_entries nw i xs) \<inter> set (worker_entries nw j xs) = {}"
  by (auto simp: worker_entries_def)

lemma worker_entries_cover:
  "0 < nw \<Longrightarrow> (\<Union>i\<in>{..<nw}. set (worker_entries nw i xs)) = set (enumerate 0 xs)"
  by (auto simp: worker_entries_def)

lemma worker_chunks_disjoint:
  assumes "distinct xs" "i \<noteq> j"
  shows "set (worker_chunks nw i xs) \<inter> set (worker_chunks nw j xs) = {}"
proof -
  { fix c assume a: "c \<in> set (worker_chunks nw i xs)" and b: "c \<in> set (worker_chunks nw j xs)"
    from a obtain k where k: "k < length xs" "xs ! k = c" "k mod nw = i"
      by (auto simp: worker_chunks_def worker_entries_def in_set_enumerate_eq)
    from b obtain l where l: "l < length xs" "xs ! l = c" "l mod nw = j"
      by (auto simp: worker_chunks_def worker_entries_def in_set_enumerate_eq)
    from k l assms(1) have "k = l" by (metis nth_eq_iff_index_eq)
    with k l assms(2) have False by simp }
  then show ?thesis by blast
qed

lemma iter_prologue_test:
  "stage self = Test \<Longrightarrow>
   chunks (iter_prologue indices (Some w) self) =
     worker_chunks (num_workers w) (worker_id w) (chunks self)"
  by (simp add: iter_prologue_def stage_is_shuffled_def)

lemma iter_prologue_stage [simp]: "stage (iter_prologue indices info self) = stage self"
  by (simp add: iter_prologue_def Let_def split: option.splits)

lemma subseq_worker_chunks: "subseq (worker_chunks nw i cs) cs"
proof -
  have "subseq (map snd (worker_entries nw i cs)) (map snd (enumerate 0 cs))"
    unfolding worker_entries_def by (intro subseq_map subseq_filter_left)
  then show ?thesis by (simp add: worker_chunks_def)
qed

lemma length_worker_chunks_less:
  assumes "1 < nw" "2 \<le> length cs"
  shows "length (worker_chunks nw i cs) < length cs"
proof -
  let ?P = "\<lambda>(chunk_index, chunk::'a). chunk_index mod nw = i"
  have m0: "(0, cs ! 0) \<in> set (enumerate 0 cs)" and m1: "(1, cs ! 1) \<in> set (enumerate 0 cs)"
    using assms(2) by (auto simp: in_set_enumerate_eq)
  have "\<not> ?P (0, cs ! 0) \<or> \<not> ?P (1, cs ! 1)" using assms(1) by auto
  then obtain p where "p \<in> set (enumerate 0 cs)" "\<not> ?P p" using m0 m1 by blast
  then have "length (filter ?P (enumerate 0 cs)) < length (enumerate 0 cs)"
    by (rule length_filter_less)
  then show ?thesis by (simp add: worker_chunks_def worker_entries_def)
qed

text \<open>
  Claim C7 (partition completeness). In the test stage, with \<open>nw\<close> workers numbered
  \<open>0..nw-1\<close>, worker \<open>i\<close> keeps the chunks whose position in the list is congruent to
  \<open>i\<close> modulo \<open>nw\<close>. The kept (position, chunk) entries of two different workers are
  disjoint, together they are all entries of the list, and the chunk lists of all workers,
  added up as multisets, are the original list: every chunk of the list is given to exactly
  one worker, once. When the list has no repeated path, the workers' chunk lists are
  disjoint as sets of paths too.
\<close>

theorem partition_completeness:
  assumes "0 < nw" and "stage self = Test"
  shows "(\<Sum>i\<in>{..<nw}. mset (chunks (iter_prologue indices
              (Some \<lparr>num_workers = nw, worker_id = i\<rparr>) self))) = mset (chunks self)
       \<and> (\<Union>i\<in>{..<nw}. set (worker_entries nw i (chunks self))) = set (enumerate 0 (chunks self))
       \<and> (\<forall>i j. i \<noteq> j \<longrightarrow>
             set (worker_entries nw i (chunks self)) \<inter> set (worker_entries nw j (chunks self)) = {})
       \<and> (distinct (chunks self) \<longrightarrow> (\<forall>i j. i \<noteq> j \<longrightarrow>
             set (chunks (iter_prologue indices (Some \<lparr>num_workers = nw, worker_id = i\<rparr>) self))
           \<inter> set (chunks (iter_prologue indices (Some \<lparr>num_workers = nw, worker_id = j\<rparr>) self))
           = {}))"
  using assms
  by (simp add: iter_prologue_test sum_worker_chunks worker_entries_cover
        worker_entries_disjoint worker_chunks_disjoint)

theorem partition_completeness_witness:
  "(0::nat) < 2 \<and> stage (test_dataset [''a'', ''b'', ''c'']) = Test
   \<and> distinct (chunks (test_dataset [''a'', ''b'', ''c'']))
   \<and> (0::nat) \<noteq> 1
   \<and> chunks (iter_prologue [] (Some \<lparr>num_workers = 2, worker_id = 0\<rparr>)
         (test_dataset [''a'', ''b'', ''c''])) = [''a'', ''c'']
   \<and> chunks (iter_prologue [] (Some \<lparr>num_workers = 2, worker_id = 1\<rparr>)
         (test_dataset [''a'', ''b'', ''c''])) = [''b'']
   \<and> (\<Sum>i\<in>{..<2}. mset (chunks (iter_prologue [] (Some \<lparr>num_workers = 2, worker_id = i\<rparr>)
         (test_dataset [''a'', ''b'', ''c''])))) = mset [''a'', ''b'', ''c'']
   \<and> set (chunks (iter_prologue [] (Some \<lparr>num_workers = 2, worker_id = 0\<rparr>)
         (test_dataset [''a'', ''b'', ''c''])))
     \<inter> set (chunks (iter_prologue [] (Some \<lparr>num_workers = 2, worker_id = 1\<rparr>)
         (test_dataset [''a'', ''b'', ''c'']))) = {}"
proof -
  have st: "stage (test_dataset [''a'', ''b'', ''c'']) = Test"
    and ch: "chunks (test_dataset [''a'', ''b'', ''c'']) = [''a'', ''b'', ''c'']"
    by (simp_all add: test_dataset_def)
  have ev: "worker_chunks 2 0 [''a'', ''b'', ''c''] = [''a'', ''c'']"
           "worker_chunks 2 1 [''a'', ''b'', ''c''] = [''b'']"
           "worker_chunks 2 (Suc 0) [''a'', ''b'', ''c''] = [''b'']"
    by (simp_all add: worker_chunks_def worker_entries_def)
  have d: "distinct (chunks (test_dataset [''a'', ''b'', ''c'']))" by (simp add: ch)
  have n: "(0::nat) < 2" by simp
  from partition_completeness [OF n st, of "[]"] d
  show ?thesis by (simp add: st ch ev iter_prologue_test)
qed

subsection \<open>Iterating a test-stage dataset twice\<close>

text \<open>
  Claim C10 as stated: a second pass of a test-stage worker visits a strict subset of the
  chunks of its first pass. It fails for worker 0 of two workers on the list
  \<open>[a, b]\<close>: the first pass leaves \<open>[a]\<close> in \<open>self.chunks\<close>, and the filter keeps
  position 0 of that list, so the second pass visits \<open>[a]\<close> again.
\<close>

theorem second_pass_strict_subset_counterexample:
  "\<not> (set (chunks (iter_prologue [] (Some \<lparr>num_workers = 2, worker_id = 0\<rparr>)
               (iter_prologue [] (Some \<lparr>num_workers = 2, worker_id = 0\<rparr>)
                  (test_dataset [''a'', ''b'']))))
        \<subset> set (chunks (iter_prologue [] (Some \<lparr>num_workers = 2, worker_id = 0\<rparr>)
               (test_dataset [''a'', ''b'']))))"
proof -
  have "worker_chunks 2 0 [''a'', ''b''] = [''a'']" "worker_chunks 2 0 [''a''] = [''a'']"
    by (simp_all add: worker_chunks_def worker_entries_def)
  then show ?thesis by (simp add: iter_prologue_test test_dataset_def)
qed

text \<open>
  Claim C10, amended. \<open>__iter__\<close> stores the filtered list back into \<open>self.chunks\<close>, so
  in the test stage the second pass of a worker among \<open>nw > 1\<close> workers filters the list
  its first pass left behind. The chunks of the second pass are a subsequence of those of
  the first pass, and there are strictly fewer of them whenever the first pass visited at
  least two chunks.
\<close>

theorem second_pass_filters_again:
  assumes "stage self = Test" and "1 < num_workers w"
  shows "chunks (iter_prologue indices (Some w) self)
           = worker_chunks (num_workers w) (worker_id w) (chunks self)
       \<and> chunks (iter_prologue indices' (Some w) (iter_prologue indices (Some w) self))
           = worker_chunks (num_workers w) (worker_id w)
               (chunks (iter_prologue indices (Some w) self))
       \<and> subseq (chunks (iter_prologue indices' (Some w) (iter_prologue indices (Some w) self)))
                (chunks (iter_prologue indices (Some w) self))
       \<and> (2 \<le> length (chunks (iter_prologue indices (Some w) self)) \<longrightarrow>
            length (chunks (iter_prologue indices' (Some w) (iter_prologue indices (Some w) self)))
              < length (chunks (iter_prologue indices (Some w) self)))"
  using assms
  by (simp add: iter_prologue_test subseq_worker_chunks length_worker_chunks_less)

theorem second_pass_filters_again_witness:
  "stage (test_dataset [''a'', ''b'', ''c'', ''d'']) = Test
   \<and> 1 < num_workers \<lparr>num_workers = 2, worker_id = 0\<rparr>
   \<and> chunks (iter_prologue [] (Some \<lparr>num_workers = 2, worker_id = 0\<rparr>)
        (test_dataset [''a'', ''b'', ''c'', ''d''])) = [''a'', ''c'']
   \<and> 2 \<le> length (chunks (iter_prologue [] (Some \<lparr>num_workers = 2, worker_id = 0\<rparr>)
        (test_dataset [''a'', ''b'', ''c'', ''d''])))
   \<and> chunks (iter_prologue [] (Some \<lparr>num_workers = 2, worker_id = 0\<rparr>)
        (iter_prologue [] (Some \<lparr>num_workers = 2, worker_id = 0\<rparr>)
           (test_dataset [''a'', ''b'', ''c'', ''d'']))) = [''a'']
   \<and> length (chunks (iter_prologue [] (Some \<lparr>num_workers = 2, worker_id = 0\<rparr>)
        (iter_prologue [] (Some \<lparr>num_workers = 2, worker_id = 0\<rparr>)
           (test_dataset [''a'', ''b'', ''c'', ''d'']))))
       < length (chunks (iter_prologue [] (Some \<lparr>num_workers = 2, worker_id = 0\<rparr>)
           (test_dataset [''a'', ''b'', ''c'', ''d''])))"
proof -
  have st: "stage (test_dataset [''a'', ''b'', ''c'', ''d'']) = Test"
    by (simp add: test_dataset_def)
  have nw: "1 < num_workers \<lparr>num_workers = 2, worker_id = 0\<rparr>" by simp
  have ev: "worker_chunks 2 0 [''a'', ''b'', ''c'', ''d''] = [''a'', ''c'']"
           "worker_chunks 2 0 [''a'', ''c''] = [''a'']"
    by (simp_all add: worker_chunks_def worker_entries_def)
  from second_pass_filters_again [OF st nw, of "[]" "[]"]
  show ?thesis by (simp add: test_dataset_def ev)
qed

end
